theory Spec2Isabelle
  imports Complex_Main
begin

section \<open>Values and errors\<close>

text \<open>
  The notebooks compute with NumPy float64 values. The model takes them as real numbers
  together with one not-a-number element: the surface test of the integration loop asks
  \<^verbatim>\<open>pressure != pressure\<close>, which only a NaN satisfies. Rounding, overflow and the two
  infinities are not represented; a division by zero (which NumPy answers with a warning
  and a non-finite value, never with an exception) gives \<open>NaN\<close>.

  Quantities that are run parameters or grid radii (\<^verbatim>\<open>stp\<close>, \<^verbatim>\<open>tol\<close>, \<^verbatim>\<open>rhoc\<close>,
  \<^verbatim>\<open>rlist\<close>, the EoS table) are finite and have type \<open>real\<close>; quantities that come out
  of the ODE solver have type \<open>pyfloat\<close>.
\<close>

datatype pyfloat = Fin real | NaN

datatype error = ValueError | IndexError | NameError

text \<open>A statement that raises ends the cell: the rest runs only on a value.\<close>

definition and_then :: "error + 'a \<Rightarrow> ('a \<Rightarrow> error + 'b) \<Rightarrow> error + 'b" where
  "and_then r k = (case r of Inl e \<Rightarrow> Inl e | Inr v \<Rightarrow> k v)"

instantiation pyfloat :: "{plus, minus, uminus, times, inverse}"
begin

fun plus_pyfloat :: "pyfloat \<Rightarrow> pyfloat \<Rightarrow> pyfloat" where
  "plus_pyfloat (Fin a) (Fin b) = Fin (a + b)"
| "plus_pyfloat _ _ = NaN"

fun minus_pyfloat :: "pyfloat \<Rightarrow> pyfloat \<Rightarrow> pyfloat" where
  "minus_pyfloat (Fin a) (Fin b) = Fin (a - b)"
| "minus_pyfloat _ _ = NaN"

fun uminus_pyfloat :: "pyfloat \<Rightarrow> pyfloat" where
  "uminus_pyfloat (Fin a) = Fin (- a)"
| "uminus_pyfloat NaN = NaN"

fun times_pyfloat :: "pyfloat \<Rightarrow> pyfloat \<Rightarrow> pyfloat" where
  "times_pyfloat (Fin a) (Fin b) = Fin (a * b)"
| "times_pyfloat _ _ = NaN"

fun divide_pyfloat :: "pyfloat \<Rightarrow> pyfloat \<Rightarrow> pyfloat" where
  "divide_pyfloat (Fin a) (Fin b) = (if b = 0 then NaN else Fin (a / b))"
| "divide_pyfloat _ _ = NaN"

fun inverse_pyfloat :: "pyfloat \<Rightarrow> pyfloat" where
  "inverse_pyfloat (Fin a) = (if a = 0 then NaN else Fin (inverse a))"
| "inverse_pyfloat NaN = NaN"

instance ..

end

text \<open>Comparisons of floats: every ordered comparison with a NaN is false, and
  \<^verbatim>\<open>!=\<close> is true as soon as one side is a NaN.\<close>

fun flt :: "pyfloat \<Rightarrow> pyfloat \<Rightarrow> bool" where
  "flt (Fin a) (Fin b) = (a < b)"
| "flt _ _ = False"

fun fne :: "pyfloat \<Rightarrow> pyfloat \<Rightarrow> bool" where
  "fne (Fin a) (Fin b) = (a \<noteq> b)"
| "fne _ _ = True"

type_synonym state = "pyfloat \<times> pyfloat"

section \<open>The equations of stellar structure (cell DEFINE KEY FUNCTIONS)\<close>

text \<open>
  \<^verbatim>\<open>
  def hydro(y,r):
      mu, m = y
      return -(mu)*(m)/(r**2)
  def mass(y,r):
      mu, m = y
      return 4.*np.pi*r**2*mu
  def struceqs(y,r):
      return hydro(y,r), mass(y,r)
  \<close>
  The solver calls these with the state as an array and the radius as a float.
\<close>

fun hydro :: "state \<Rightarrow> real \<Rightarrow> pyfloat" where
  "hydro (mu, m) r = - mu * m / Fin (r\<^sup>2)"

fun mass :: "state \<Rightarrow> real \<Rightarrow> pyfloat" where
  "mass (mu, m) r = Fin (4 * pi) * Fin (r\<^sup>2) * mu"

definition struceqs :: "state \<Rightarrow> real \<Rightarrow> state" where
  "struceqs y r = (hydro y r, mass y r)"

section \<open>Library functions the notebooks call\<close>

text \<open>
  NumPy and SciPy are not part of the repository. Their functions are modelled from their
  documented behaviour, over the reals, as far as the notebooks use them.

  \<^verbatim>\<open>np.linspace(start, stop, num)\<close>: \<open>num\<close> evenly spaced samples, the first one
  \<open>start\<close> and (for \<open>num > 1\<close>) the last one \<open>stop\<close>; a negative \<open>num\<close> raises
  \<^verbatim>\<open>ValueError\<close>.
\<close>

definition linspace :: "real \<Rightarrow> real \<Rightarrow> int \<Rightarrow> error + real list" where
  "linspace start stop num =
     (if num < 0 then Inl ValueError
      else if num = 1 then Inr [start]
      else Inr (map (\<lambda>k. start + real k * ((stop - start) / real (nat num - 1))) [0..<nat num]))"

text \<open>
  \<^verbatim>\<open>np.gradient(f)\<close> on a one-dimensional array with unit spacing: central differences
  inside, one-sided differences at both ends; fewer than two samples raise
  \<^verbatim>\<open>ValueError\<close>.
\<close>

definition np_gradient :: "real list \<Rightarrow> error + real list" where
  "np_gradient f =
     (let n = length f in
      if n < 2 then Inl ValueError
      else Inr (map (\<lambda>k. if k = 0 then f ! 1 - f ! 0
                          else if k = n - 1 then f ! (n - 1) - f ! (n - 2)
                          else (f ! (k + 1) - f ! (k - 1)) / 2) [0..<n]))"

text \<open>
  \<^verbatim>\<open>scipy.interpolate.interp1d(x, y, kind='linear', bounds_error=..., fill_value=...)\<close>.
  The constructor raises \<^verbatim>\<open>ValueError\<close> when \<open>x\<close> and \<open>y\<close> differ in length or have
  fewer than two entries (the SciPy releases that run under the notebooks' Python 2
  kernel: "x and y arrays must have at least 2 entries"), and sorts the table by \<open>x\<close>
  with a stable sort. Without arguments, \<open>bounds_error\<close> is on and \<open>fill_value\<close> is NaN.
\<close>

record interp1d =
  ix :: "real list"
  iy :: "pyfloat list"
  bounds_error :: bool
  fill_value :: pyfloat

definition interp1d_new :: "real list \<Rightarrow> pyfloat list \<Rightarrow> bool \<Rightarrow> pyfloat \<Rightarrow> error + interp1d" where
  "interp1d_new x y be fv =
     (if length x \<noteq> length y then Inl ValueError
      else if length x < 2 then Inl ValueError
      else let s = sort_key fst (zip x y)
           in Inr \<lparr>ix = map fst s, iy = map snd s, bounds_error = be, fill_value = fv\<rparr>)"

text \<open>
  Calling the interpolant. A query below the first or above the last abscissa is out of
  bounds (a NaN query is neither); inside, \<^verbatim>\<open>np.interp\<close> takes the segment
  \<open>xp[j] \<le> x < xp[j+1]\<close> and returns \<open>slope * (x - xp[j]) + fp[j]\<close>, and at the last
  abscissa it returns the last ordinate.
\<close>

fun np_interp :: "real list \<Rightarrow> pyfloat list \<Rightarrow> real \<Rightarrow> pyfloat" where
  "np_interp (x0 # x1 # xr) (y0 # y1 # yr) x =
     (if x < x1 then (y1 - y0) / Fin (x1 - x0) * Fin (x - x0) + y0
      else np_interp (x1 # xr) (y1 # yr) x)"
| "np_interp [x0] [y0] x = y0"
| "np_interp _ _ x = NaN"

fun out_of_bounds :: "interp1d \<Rightarrow> pyfloat \<Rightarrow> bool" where
  "out_of_bounds f (Fin x) = (x < hd (ix f) \<or> last (ix f) < x)"
| "out_of_bounds f NaN = False"

fun interp1d_eval :: "interp1d \<Rightarrow> pyfloat \<Rightarrow> pyfloat" where
  "interp1d_eval f (Fin x) =
     (if out_of_bounds f (Fin x) then fill_value f else np_interp (ix f) (iy f) x)"
| "interp1d_eval f NaN = NaN"

definition interp1d_call :: "interp1d \<Rightarrow> pyfloat \<Rightarrow> error + pyfloat" where
  "interp1d_call f x =
     (if bounds_error f \<and> out_of_bounds f x then Inl ValueError else Inr (interp1d_eval f x))"

definition interp1d_call_array :: "interp1d \<Rightarrow> pyfloat list \<Rightarrow> error + pyfloat list" where
  "interp1d_call_array f xa =
     (if bounds_error f \<and> list_ex (out_of_bounds f) xa then Inl ValueError
      else Inr (map (interp1d_eval f) xa))"

text \<open>
  \<^verbatim>\<open>scipy.integrate.odeint(func, y0, [r0, r1])\<close> is the numerical ODE solver (LSODA). It
  is a parameter of the model: a function that receives the right-hand side, the state
  at \<open>r0\<close> and the interval, and returns the last row of its result, the state at \<open>r1\<close>.
\<close>

type_synonym odeint = "(state \<Rightarrow> real \<Rightarrow> state) \<Rightarrow> state \<Rightarrow> real \<times> real \<Rightarrow> state"

section \<open>The EoS utilities (cell MAKE SOME HELPFUL UTILITIES)\<close>

text \<open>
  \<^verbatim>\<open>
  def geteos(eospath,eosname):
      eos = np.genfromtxt(eospath+eosname+".dat")
      [rhodat,mudat,pdat] = crust(eos)
      return [rhodat, rhodat, pdat] # set mu = rho for Newtonian gravity
  \<close>
  The data file and the module \<^verbatim>\<open>crust\<close> are outside the sources; the three columns
  that \<^verbatim>\<open>crust\<close> returns are the argument of the model.
\<close>

fun geteos :: "real list \<times> real list \<times> real list \<Rightarrow> real list \<times> real list \<times> real list" where
  "geteos (rhodat, mudat, pdat) = (rhodat, rhodat, pdat)"

text \<open>
  \<^verbatim>\<open>
  def intpeos(rhodat,mudat,pdat):
      pmuintp = interp1d(mudat,pdat,kind='linear',bounds_error=False,fill_value=0.)
      dpdmumuintp = interp1d(mudat,np.gradient(pdat)/np.gradient(mudat),kind='linear',
                             bounds_error=False,fill_value=0.)
      def p(mu): return pmuintp(mu)
      def dpdmu(mu): return dpdmumuintp(mu)
      murhointp = interp1d(rhodat,mudat,kind='linear',bounds_error=False,fill_value=0.)
      def Mu(rho): return murhointp(rho)
      return [p, dpdmu, Mu]
  \<close>
  The three closures are kept as the record of the interpolants they close over.
\<close>

record eos =
  pmuintp :: interp1d
  dpdmumuintp :: interp1d
  murhointp :: interp1d

definition intpeos :: "real list \<times> real list \<times> real list \<Rightarrow> error + eos" where
  "intpeos tab =
     (case tab of (rhodat, mudat, pdat) \<Rightarrow>
        and_then (interp1d_new mudat (map Fin pdat) False (Fin 0)) (\<lambda>pm.
        and_then (np_gradient pdat) (\<lambda>gp.
        and_then (np_gradient mudat) (\<lambda>gm.
        and_then (interp1d_new mudat (map2 (\<lambda>a b. Fin a / Fin b) gp gm) False (Fin 0)) (\<lambda>dp.
        and_then (interp1d_new rhodat (map Fin mudat) False (Fin 0)) (\<lambda>mr.
        Inr \<lparr>pmuintp = pm, dpdmumuintp = dp, murhointp = mr\<rparr>))))))"

definition p :: "eos \<Rightarrow> pyfloat \<Rightarrow> error + pyfloat" where
  "p e mu = interp1d_call (pmuintp e) mu"

definition dpdmu :: "eos \<Rightarrow> pyfloat \<Rightarrow> error + pyfloat" where
  "dpdmu e mu = interp1d_call (dpdmumuintp e) mu"

definition Mu :: "eos \<Rightarrow> pyfloat \<Rightarrow> error + pyfloat" where
  "Mu e rho = interp1d_call (murhointp e) rho"

section \<open>The integration (cell RUN CODE of StellarStruc-NG.ipynb)\<close>

text \<open>
  The variables of the cell that the loop reads and writes. The loop variable \<^verbatim>\<open>i\<close> is
  unbound (\<open>None\<close>) until the \<^verbatim>\<open>for\<close> statement binds it.
\<close>

record vars =
  rlist :: "real list"
  ys :: "state list"
  Rsol :: real
  i_var :: "nat option"

text \<open>
  \<^verbatim>\<open>
  [rhodat,mudat,pdat] = geteos(eospath,eosname)
  [p, dpdmu, Mu] = intpeos(rhodat,mudat,pdat)
  muc = Mu(rhoc)
  y0 = [muc,4.*np.pi*stp**3*muc/3.]
  rlist = np.linspace(stp,10.,int(pts))
  ys = np.zeros((len(rlist),2))
  ys[0] = y0
  Rsol = rlist[-1]
  \<close>
  \<open>pts\<close> below is the integer \<^verbatim>\<open>int(pts)\<close>. Storing into row 0 of an empty array and
  reading the last entry of an empty array raise \<^verbatim>\<open>IndexError\<close>.
\<close>

definition y0_of :: "pyfloat \<Rightarrow> real \<Rightarrow> state" where
  "y0_of muc stp = (muc, Fin (4 * pi) * Fin (stp ^ 3) * muc / Fin 3)"

definition initialize ::
  "real list \<times> real list \<times> real list \<Rightarrow> real \<Rightarrow> real \<Rightarrow> int \<Rightarrow> error + (eos \<times> pyfloat \<times> vars)" where
  "initialize crusted rhoc stp pts =
     and_then (intpeos (geteos crusted)) (\<lambda>e.
     and_then (Mu e (Fin rhoc)) (\<lambda>muc.
     and_then (linspace stp 10 pts) (\<lambda>rl.
       let y0 = y0_of muc stp;
           ys0 = replicate (length rl) (Fin 0, Fin 0)
       in if ys0 = [] then Inl IndexError
          else if rl = [] then Inl IndexError
          else Inr (e, muc, \<lparr>rlist = rl, ys = ys0[0 := y0], Rsol = last rl, i_var = None\<rparr>))))"

text \<open>
  \<^verbatim>\<open>
  for i in range(len(rlist)-1):
      rs = [rlist[i],rlist[i+1]]
      y = odeint(struceqs,ys[i],rs)
      ys[i+1] = y[-1]
      pressure = ys[i+1][0]
      if (pressure < tol or pressure != pressure):
          Rsol = rs[0]
          break
  \<close>
  The loop is a recursion over the indices that remain; the right-hand side is an
  argument because the two notebooks share the loop and differ in \<^verbatim>\<open>struceqs\<close>.
\<close>

definition vanishes :: "pyfloat \<Rightarrow> real \<Rightarrow> bool" where
  "vanishes pressure tol = (flt pressure (Fin tol) \<or> fne pressure pressure)"

fun for_loop ::
  "(state \<Rightarrow> real \<Rightarrow> state) \<Rightarrow> odeint \<Rightarrow> real \<Rightarrow> nat list \<Rightarrow> vars \<Rightarrow> error + vars" where
  "for_loop f odeint tol [] v = Inr v"
| "for_loop f odeint tol (k # rest) v =
     (if Suc k < length (rlist v) \<and> Suc k < length (ys v) then
        let rs = (rlist v ! k, rlist v ! Suc k);
            y = odeint f (ys v ! k) rs;
            ys' = (ys v)[Suc k := y];
            pressure = fst (ys' ! Suc k)
        in if vanishes pressure tol
           then Inr (v\<lparr>ys := ys', Rsol := fst rs, i_var := Some k\<rparr>)
           else for_loop f odeint tol rest (v\<lparr>ys := ys', i_var := Some k\<rparr>)
      else Inl IndexError)"

definition run_loop :: "(state \<Rightarrow> real \<Rightarrow> state) \<Rightarrow> odeint \<Rightarrow> real \<Rightarrow> vars \<Rightarrow> error + vars" where
  "run_loop f odeint tol v = for_loop f odeint tol [0..<length (rlist v) - 1] v"

text \<open>
  \<^verbatim>\<open>
  rlist = rlist[0:i+1]
  musoldat = ys[0:i+1,0]
  msoldat = ys[0:i+1,1]
  \<close>
  Reading \<^verbatim>\<open>i\<close> when the loop has not bound it raises \<^verbatim>\<open>NameError\<close>.
\<close>

record solution = vars +
  musoldat :: "pyfloat list"
  msoldat :: "pyfloat list"

definition truncate_at :: "vars \<Rightarrow> error + solution" where
  "truncate_at v =
     (case i_var v of
        None \<Rightarrow> Inl NameError
      | Some k \<Rightarrow>
          Inr \<lparr>rlist = take (k + 1) (rlist v), ys = ys v, Rsol = Rsol v, i_var = i_var v,
               musoldat = map fst (take (k + 1) (ys v)),
               msoldat = map snd (take (k + 1) (ys v))\<rparr>)"

text \<open>
  \<^verbatim>\<open>
  musol = interp1d(rlist,musoldat,kind='linear')
  msol = interp1d(rlist,msoldat,kind='linear',bounds_error=False,fill_value=msoldat[-1])
  psol = interp1d(rlist,p(musoldat),kind='linear')
  Msol = msol(Rsol)
  \<close>
\<close>

record profiles =
  musol :: interp1d
  msol :: interp1d
  psol :: interp1d
  Msol :: pyfloat

definition interpolate_solution :: "eos \<Rightarrow> solution \<Rightarrow> error + profiles" where
  "interpolate_solution e s =
     and_then (interp1d_new (rlist s) (musoldat s) True NaN) (\<lambda>mus.
     and_then (interp1d_new (rlist s) (msoldat s) False (last (msoldat s))) (\<lambda>ms.
     and_then (interp1d_call_array (pmuintp e) (musoldat s)) (\<lambda>pdat.
     and_then (interp1d_new (rlist s) pdat True NaN) (\<lambda>ps.
     and_then (interp1d_call ms (Fin (Rsol s))) (\<lambda>M.
     Inr \<lparr>musol = mus, msol = ms, psol = ps, Msol = M\<rparr>)))))"

definition run_code ::
  "odeint \<Rightarrow> real list \<times> real list \<times> real list \<Rightarrow> real \<Rightarrow> real \<Rightarrow> int \<Rightarrow> real
     \<Rightarrow> error + (solution \<times> profiles)" where
  "run_code odeint crusted rhoc stp pts tol =
     and_then (initialize crusted rhoc stp pts) (\<lambda>(e, muc, v0).
     and_then (run_loop struceqs odeint tol v0) (\<lambda>v.
     and_then (truncate_at v) (\<lambda>s.
     and_then (interpolate_solution e s) (\<lambda>pr.
     Inr (s, pr)))))"

section \<open>Unit conversion (cell OUTPUT RESULTS)\<close>

text \<open>
  \<^verbatim>\<open>
  G = 6.674e-8; c = 2.998e10; Msun = 1.988e33; rhonuc = 2.7e14
  R = Rsol*c/(1e5*(G*rhonuc)**0.5)
  M = Msol*c**3/(G*(G*rhonuc)**0.5*Msun)
  \<close>
\<close>

definition G :: real where "G = 6674 / 10 ^ 11"
definition c :: real where "c = 2998 * 10 ^ 7"
definition Msun :: real where "Msun = 1988 * 10 ^ 30"
definition rhonuc :: real where "rhonuc = 27 * 10 ^ 13"

definition R_km :: "real \<Rightarrow> real" where
  "R_km Rs = Rs * c / (10 ^ 5 * (G * rhonuc) powr (1 / 2))"

definition M_msun :: "pyfloat \<Rightarrow> pyfloat" where
  "M_msun Ms = Ms * Fin (c ^ 3) / Fin (G * (G * rhonuc) powr (1 / 2) * Msun)"

definition output_results :: "solution \<times> profiles \<Rightarrow> real \<times> pyfloat" where
  "output_results sp = (R_km (Rsol (fst sp)), M_msun (Msol (snd sp)))"

section \<open>The template notebook (src/unnamed/part\_004, titled STELLARSTRUC.IPYNB)\<close>

text \<open>
  The second notebook has the same utilities, loop and truncation. It differs in the
  right-hand sides, in the boundary values, in the initial \<^verbatim>\<open>Rsol\<close> and in \<^verbatim>\<open>msol\<close>:
  \<^verbatim>\<open>
  def hydro(y,r):  mu, m = y;  return -mu*m/r
  def mass(y,r):   mu, m = y;  return r*mu
  y0 = [10.,1e-3]
  Rsol = rlist[-2]
  msol = interp1d(rlist,msoldat,kind='linear')
  \<close>
\<close>

fun hydro_tpl :: "state \<Rightarrow> real \<Rightarrow> pyfloat" where
  "hydro_tpl (mu, m) r = - mu * m / Fin r"

fun mass_tpl :: "state \<Rightarrow> real \<Rightarrow> pyfloat" where
  "mass_tpl (mu, m) r = Fin r * mu"

definition struceqs_tpl :: "state \<Rightarrow> real \<Rightarrow> state" where
  "struceqs_tpl y r = (hydro_tpl y r, mass_tpl y r)"

definition y0_tpl :: state where
  "y0_tpl = (Fin 10, Fin (1 / 10 ^ 3))"

definition initialize_tpl ::
  "real list \<times> real list \<times> real list \<Rightarrow> real \<Rightarrow> int \<Rightarrow> error + (eos \<times> vars)" where
  "initialize_tpl crusted stp pts =
     and_then (intpeos (geteos crusted)) (\<lambda>e.
     and_then (linspace stp 10 pts) (\<lambda>rl.
       let ys0 = replicate (length rl) (Fin 0, Fin 0)
       in if ys0 = [] then Inl IndexError
          else if length rl < 2 then Inl IndexError
          else Inr (e, \<lparr>rlist = rl, ys = ys0[0 := y0_tpl], Rsol = rl ! (length rl - 2),
                       i_var = None\<rparr>)))"

definition interpolate_solution_tpl :: "eos \<Rightarrow> solution \<Rightarrow> error + profiles" where
  "interpolate_solution_tpl e s =
     and_then (interp1d_new (rlist s) (musoldat s) True NaN) (\<lambda>mus.
     and_then (interp1d_new (rlist s) (msoldat s) True NaN) (\<lambda>ms.
     and_then (interp1d_call_array (pmuintp e) (musoldat s)) (\<lambda>pdat.
     and_then (interp1d_new (rlist s) pdat True NaN) (\<lambda>ps.
     and_then (interp1d_call ms (Fin (Rsol s))) (\<lambda>M.
     Inr \<lparr>musol = mus, msol = ms, psol = ps, Msol = M\<rparr>)))))"

definition run_code_tpl ::
  "odeint \<Rightarrow> real list \<times> real list \<times> real list \<Rightarrow> real \<Rightarrow> int \<Rightarrow> real
     \<Rightarrow> error + (solution \<times> profiles)" where
  "run_code_tpl odeint crusted stp pts tol =
     and_then (initialize_tpl crusted stp pts) (\<lambda>(e, v0).
     and_then (run_loop struceqs_tpl odeint tol v0) (\<lambda>v.
     and_then (truncate_at v) (\<lambda>s.
     and_then (interpolate_solution_tpl e s) (\<lambda>pr.
     Inr (s, pr)))))"

section \<open>Notions used to state the properties\<close>

text \<open>
  The state that point-to-point integration reaches at grid index \<open>k\<close>, had the loop
  not stopped before: the value the loop stores in \<^verbatim>\<open>ys[k]\<close>.
\<close>

fun traj :: "(state \<Rightarrow> real \<Rightarrow> state) \<Rightarrow> odeint \<Rightarrow> real list \<Rightarrow> state \<Rightarrow> nat \<Rightarrow> state" where
  "traj f od rl y0 0 = y0"
| "traj f od rl y0 (Suc k) = od f (traj f od rl y0 k) (rl ! k, rl ! Suc k)"

text \<open>
  The inverse formulas of the unit conversion, which the specification names and the
  notebooks do not contain: from kilometres and solar masses back to code units.
\<close>

definition R_code :: "real \<Rightarrow> real" where
  "R_code Rk = Rk * (10 ^ 5 * sqrt (G * rhonuc)) / c"

definition M_code :: "pyfloat \<Rightarrow> pyfloat" where
  "M_code Mm = Mm * Fin (G * sqrt (G * rhonuc) * Msun) / Fin (c ^ 3)"

text \<open>
  Concrete inputs for evaluating runs: the three-row table of the specification's
  scenario, as the columns \<^verbatim>\<open>crust\<close> would return, and a solver with the interface of
  \<^verbatim>\<open>odeint\<close> that takes one explicit Euler step across the interval.
\<close>

definition toy_table :: "real list \<times> real list \<times> real list" where
  "toy_table = ([0, 1, 2], [0, 1, 2], [0, 1 / 2, 1])"

definition toy_eos :: eos where
  "toy_eos =
     \<lparr>pmuintp = \<lparr>ix = [0, 1, 2], iy = [Fin 0, Fin (1 / 2), Fin 1],
                 bounds_error = False, fill_value = Fin 0\<rparr>,
      dpdmumuintp = \<lparr>ix = [0, 1, 2], iy = [Fin (1 / 2), Fin (1 / 2), Fin (1 / 2)],
                     bounds_error = False, fill_value = Fin 0\<rparr>,
      murhointp = \<lparr>ix = [0, 1, 2], iy = [Fin 0, Fin 1, Fin 2],
                   bounds_error = False, fill_value = Fin 0\<rparr>\<rparr>"

fun euler_odeint :: odeint where
  "euler_odeint f y (r0, r1) =
     (fst y + Fin (r1 - r0) * fst (f y r0), snd y + Fin (r1 - r0) * snd (f y r0))"


section \<open>Basic facts\<close>

lemma and_then_Inl [simp]: "and_then (Inl e) k = Inl e"
  by (simp add: and_then_def)

lemma and_then_Inr [simp]: "and_then (Inr a) k = k a"
  by (simp add: and_then_def)

lemma and_then_eq_Inr: "and_then r k = Inr x \<longleftrightarrow> (\<exists>v. r = Inr v \<and> k v = Inr x)"
  by (cases r) simp_all

lemma vanishes_iff: "vanishes v tol \<longleftrightarrow> (v = NaN \<or> (\<exists>x. v = Fin x \<and> x < tol))"
  by (cases v) (simp_all add: vanishes_def)

subsection \<open>The library functions\<close>

lemma interp1d_new_eq_Inr:
  "interp1d_new x y be fv = Inr f \<longleftrightarrow>
     length x = length y \<and> 2 \<le> length x \<and>
     f = \<lparr>ix = map fst (sort_key fst (zip x y)), iy = map snd (sort_key fst (zip x y)),
          bounds_error = be, fill_value = fv\<rparr>"
  by (auto simp: interp1d_new_def Let_def)

lemma interp1d_new_sorted:
  assumes "sorted x" and "length x = length y" and "2 \<le> length x"
  shows "interp1d_new x y be fv = Inr \<lparr>ix = x, iy = y, bounds_error = be, fill_value = fv\<rparr>"
proof -
  have "sorted (map fst (zip x y))" using assms by simp
  then have "sort_key fst (zip x y) = zip x y" by (rule sort_key_id_if_sorted)
  then show ?thesis using assms by (simp add: interp1d_new_def)
qed

lemma interp1d_new_table:
  assumes "interp1d_new x y be fv = Inr f"
  shows "sorted (ix f)" and "set (ix f) = set x" and "bounds_error f = be"
    and "fill_value f = fv"
proof -
  have f: "f = \<lparr>ix = map fst (sort_key fst (zip x y)), iy = map snd (sort_key fst (zip x y)),
          bounds_error = be, fill_value = fv\<rparr>" and len: "length x = length y"
    using assms by (simp_all add: interp1d_new_eq_Inr)
  show "sorted (ix f)" unfolding f by simp
  have "set (map fst (sort_key fst (zip x y))) = set (map fst (zip x y))"
    by (simp only: set_map set_sort)
  then show "set (ix f) = set x" unfolding f using len by simp
  show "bounds_error f = be" unfolding f by simp
  show "fill_value f = fv" unfolding f by simp
qed

lemma sorted_between:
  assumes "sorted xs" and "x \<in> set xs"
  shows "hd xs \<le> x" and "x \<le> last xs"
proof -
  obtain k where k: "k < length xs" "xs ! k = x" using assms(2) by (auto simp: in_set_conv_nth)
  then have ne: "xs \<noteq> []" by auto
  have "xs ! 0 \<le> xs ! k" using assms(1) k by (intro sorted_nth_mono) simp_all
  then show "hd xs \<le> x" using k ne by (simp add: hd_conv_nth)
  have "xs ! k \<le> xs ! (length xs - 1)" using assms(1) k by (intro sorted_nth_mono) simp_all
  then show "x \<le> last xs" using k ne by (simp add: last_conv_nth)
qed



lemma np_gradient_eq_Inl: "np_gradient f = Inl e \<longleftrightarrow> length f < 2 \<and> e = ValueError"
  by (auto simp: np_gradient_def Let_def)

lemma np_gradient_length: "np_gradient f = Inr g \<Longrightarrow> length g = length f"
  by (auto simp: np_gradient_def Let_def split: if_splits)

lemma linspace_Inr:
  assumes "0 \<le> pts"
  shows "\<exists>rl. linspace a b pts = Inr rl \<and> length rl = nat pts"
  using assms by (auto simp: linspace_def)

lemma linspace_length:
  assumes "linspace a b pts = Inr rl"
  shows "length rl = nat pts"
  using assms by (auto simp: linspace_def split: if_splits)

lemma linspace_first:
  assumes "linspace a b pts = Inr rl" and "1 \<le> pts"
  shows "rl ! 0 = a"
  using assms by (auto simp: linspace_def split: if_splits)

lemma linspace_nth:
  assumes "linspace a b pts = Inr rl" and "2 \<le> pts" and "k < nat pts"
  shows "rl ! k = a + real k * ((b - a) / real (nat pts - 1))"
  using assms by (auto simp: linspace_def split: if_splits)

lemma linspace_last:
  assumes "linspace a b pts = Inr rl" and "2 \<le> pts"
  shows "last rl = b"
proof -
  have len: "length rl = nat pts" using assms linspace_length by blast
  then have ne: "rl \<noteq> []" using assms by auto
  have "last rl = rl ! (nat pts - 1)" using len ne by (simp add: last_conv_nth)
  also have "\<dots> = a + real (nat pts - 1) * ((b - a) / real (nat pts - 1))"
    using linspace_nth [OF assms, of "nat pts - 1"] assms by simp
  also have "\<dots> = b" using assms by simp
  finally show ?thesis .
qed

lemma linspace_increasing:
  assumes "linspace a b pts = Inr rl" and "a < b" and "j < k" and "k < length rl"
  shows "rl ! j < rl ! k"
proof -
  define d where "d = (b - a) / real (nat pts - 1)"
  have len: "length rl = nat pts" using assms linspace_length by blast
  then have p2: "2 \<le> pts" using assms by auto
  have pos: "0 < d" using assms p2 by (simp add: d_def)
  have j: "rl ! j = a + real j * d"
    using linspace_nth [OF assms(1) p2, of j] assms len by (simp add: d_def)
  have k: "rl ! k = a + real k * d"
    using linspace_nth [OF assms(1) p2, of k] assms len by (simp add: d_def)
  have "real j * d < real k * d"
    using pos assms(3) by (intro mult_strict_right_mono) simp_all
  then show ?thesis unfolding j k by simp
qed

lemma linspace_sorted:
  assumes "linspace a b pts = Inr rl" and "a < b"
  shows "sorted rl"
  unfolding sorted_iff_nth_mono_less
  using linspace_increasing [OF assms] by (auto intro: less_imp_le)

subsection \<open>The EoS utilities and the initialisation\<close>

lemma intpeos_accepts:
  assumes "2 \<le> length rhodat" and "length pdat = length rhodat"
  shows "\<exists>e. intpeos (geteos (rhodat, mudat, pdat)) = Inr e"
proof -
  obtain pm where pm: "interp1d_new rhodat (map Fin pdat) False (Fin 0) = Inr pm"
    using assms by (simp add: interp1d_new_eq_Inr)
  obtain gp where gp: "np_gradient pdat = Inr gp"
    using assms by (cases "np_gradient pdat") (auto simp: np_gradient_eq_Inl)
  obtain gm where gm: "np_gradient rhodat = Inr gm"
    using assms by (cases "np_gradient rhodat") (auto simp: np_gradient_eq_Inl)
  have len: "length (map2 (\<lambda>a b. Fin a / Fin b) gp gm) = length rhodat"
    using np_gradient_length [OF gp] np_gradient_length [OF gm] assms by simp
  obtain dp where dp: "interp1d_new rhodat (map2 (\<lambda>a b. Fin a / Fin b) gp gm) False (Fin 0) = Inr dp"
    using assms len by (simp add: interp1d_new_eq_Inr)
  obtain mr where mr: "interp1d_new rhodat (map Fin rhodat) False (Fin 0) = Inr mr"
    using assms by (simp add: interp1d_new_eq_Inr)
  show ?thesis using dp by (simp add: intpeos_def pm gp gm mr)
qed

lemma intpeos_bounds:
  assumes "intpeos tab = Inr e"
  shows "\<not> bounds_error (pmuintp e)" and "\<not> bounds_error (murhointp e)"
  using assms
  by (auto simp: intpeos_def and_then_eq_Inr interp1d_new_eq_Inr split: prod.splits)

lemma Mu_returns: "intpeos tab = Inr e \<Longrightarrow> Mu e rho = Inr (interp1d_eval (murhointp e) rho)"
  by (simp add: Mu_def interp1d_call_def intpeos_bounds)


lemma p_array_returns:
  "intpeos tab = Inr e \<Longrightarrow> interp1d_call_array (pmuintp e) xa = Inr (map (interp1d_eval (pmuintp e)) xa)"
  by (simp add: interp1d_call_array_def intpeos_bounds)

lemma initialize_eq_Inr:
  "initialize crusted rhoc stp pts = Inr (e, muc, v0) \<longleftrightarrow>
     intpeos (geteos crusted) = Inr e \<and> Mu e (Fin rhoc) = Inr muc \<and> 1 \<le> pts \<and>
     (\<exists>rl. linspace stp 10 pts = Inr rl \<and>
        v0 = \<lparr>rlist = rl, ys = (replicate (length rl) (Fin 0, Fin 0))[0 := y0_of muc stp],
              Rsol = last rl, i_var = None\<rparr>)"
proof -
  have *: "1 \<le> pts \<longleftrightarrow> rl \<noteq> []" if "linspace stp 10 pts = Inr rl" for rl
    using linspace_length [OF that] by (cases rl) auto
  show ?thesis
    unfolding initialize_def and_then_eq_Inr Let_def
    by (auto simp: * split: if_splits)
qed

lemma initialize_facts:
  assumes "initialize crusted rhoc stp pts = Inr (e, muc, v0)"
  shows "intpeos (geteos crusted) = Inr e" and "Mu e (Fin rhoc) = Inr muc" and "1 \<le> pts"
    and "linspace stp 10 pts = Inr (rlist v0)" and "length (rlist v0) = nat pts"
    and "length (ys v0) = length (rlist v0)" and "ys v0 ! 0 = y0_of muc stp"
    and "rlist v0 ! 0 = stp" and "Rsol v0 = last (rlist v0)" and "i_var v0 = None"
proof -
  from assms obtain rl where rl: "linspace stp 10 pts = Inr rl"
    and v0: "v0 = \<lparr>rlist = rl, ys = (replicate (length rl) (Fin 0, Fin 0))[0 := y0_of muc stp],
              Rsol = last rl, i_var = None\<rparr>"
    and p1: "1 \<le> pts"
    and e: "intpeos (geteos crusted) = Inr e" and mu: "Mu e (Fin rhoc) = Inr muc"
    by (auto simp: initialize_eq_Inr)
  have len: "length rl = nat pts" using rl by (rule linspace_length)
  have "0 < nat pts" using p1 by linarith
  then have pos: "0 < length rl" using len by simp
  show "intpeos (geteos crusted) = Inr e" by (rule e)
  show "Mu e (Fin rhoc) = Inr muc" by (rule mu)
  show "1 \<le> pts" by (rule p1)
  show "linspace stp 10 pts = Inr (rlist v0)" using rl v0 by simp
  show "length (rlist v0) = nat pts" using len v0 by simp
  show "length (ys v0) = length (rlist v0)" using v0 by simp
  show "ys v0 ! 0 = y0_of muc stp" using v0 pos by simp
  show "rlist v0 ! 0 = stp" using linspace_first [OF rl p1] v0 by simp
  show "Rsol v0 = last (rlist v0)" using v0 by simp
  show "i_var v0 = None" using v0 by simp
qed

lemma initialize_tpl_facts:
  assumes "initialize_tpl crusted stp pts = Inr (e, w0)"
  shows "intpeos (geteos crusted) = Inr e" and "2 \<le> pts"
    and "linspace stp 10 pts = Inr (rlist w0)" and "length (rlist w0) = nat pts"
    and "length (ys w0) = length (rlist w0)" and "ys w0 ! 0 = y0_tpl"
    and "Rsol w0 = rlist w0 ! (nat pts - 2)"
proof -
  from assms obtain rl where e: "intpeos (geteos crusted) = Inr e"
    and rl: "linspace stp 10 pts = Inr rl"
    and l2: "2 \<le> length rl"
    and w0: "w0 = \<lparr>rlist = rl, ys = (replicate (length rl) (Fin 0, Fin 0))[0 := y0_tpl],
              Rsol = rl ! (length rl - 2), i_var = None\<rparr>"
    unfolding initialize_tpl_def and_then_eq_Inr Let_def by (auto split: if_splits)
  have len: "length rl = nat pts" using rl by (rule linspace_length)
  show "intpeos (geteos crusted) = Inr e" by (rule e)
  show "2 \<le> pts" using l2 len by linarith
  show "linspace stp 10 pts = Inr (rlist w0)" using rl w0 by simp
  show "length (rlist w0) = nat pts" using len w0 by simp
  show "length (ys w0) = length (rlist w0)" using w0 by simp
  have "0 < length rl" using l2 by arith
  then show "ys w0 ! 0 = y0_tpl" using w0 by simp
  show "Rsol w0 = rlist w0 ! (nat pts - 2)" using w0 len by simp
qed

section \<open>The loop, step by step\<close>

text \<open>
  When the test first holds at step \<open>i\<close>, the loop stops there; when it never holds,
  the loop runs through the grid. In both cases the array holds the trajectory.
\<close>

lemma for_loop_breaks:
  assumes "Suc i < length (rlist v)" and "length (ys v) = length (rlist v)" and "k \<le> i"
    and "\<forall>j. k \<le> j \<and> j < i \<longrightarrow> \<not> vanishes (fst (traj f od (rlist v) y0 (Suc j))) tol"
    and "vanishes (fst (traj f od (rlist v) y0 (Suc i))) tol"
    and "\<forall>j\<le>k. ys v ! j = traj f od (rlist v) y0 j"
  shows "\<exists>v'. for_loop f od tol [k..<length (rlist v) - 1] v = Inr v'
           \<and> rlist v' = rlist v \<and> Rsol v' = rlist v ! i \<and> i_var v' = Some i
           \<and> length (ys v') = length (rlist v)
           \<and> (\<forall>j\<le>Suc i. ys v' ! j = traj f od (rlist v) y0 j)"
  using assms
proof (induction "i - k" arbitrary: k v)
  case 0
  then have ki: "k = i" by simp
  have upt: "[k..<length (rlist v) - 1] = k # [Suc k..<length (rlist v) - 1]"
    using 0 ki by (simp add: upt_conv_Cons)
  show ?case
    using 0 ki unfolding upt
    by (auto simp: Let_def nth_list_update)
next
  case (Suc d)
  then have lt: "k < i" by simp
  have upt: "[k..<length (rlist v) - 1] = k # [Suc k..<length (rlist v) - 1]"
    using Suc.prems lt by (simp add: upt_conv_Cons)
  let ?v = "v\<lparr>ys := (ys v)[Suc k := od f (ys v ! k) (rlist v ! k, rlist v ! Suc k)], i_var := Some k\<rparr>"
  have nofire: "\<not> vanishes (fst (traj f od (rlist v) y0 (Suc k))) tol"
    using Suc.prems lt by simp
  have yk: "ys v ! k = traj f od (rlist v) y0 k" using Suc.prems by simp
  have step: "for_loop f od tol [k..<length (rlist v) - 1] v
        = for_loop f od tol [Suc k..<length (rlist v) - 1] ?v"
    unfolding upt using Suc.prems lt nofire yk by (simp add: Let_def)
  have "\<exists>v'. for_loop f od tol [Suc k..<length (rlist ?v) - 1] ?v = Inr v'
           \<and> rlist v' = rlist ?v \<and> Rsol v' = rlist ?v ! i \<and> i_var v' = Some i
           \<and> length (ys v') = length (rlist ?v)
           \<and> (\<forall>j\<le>Suc i. ys v' ! j = traj f od (rlist ?v) y0 j)"
  proof (rule Suc.hyps(1))
    show "d = i - Suc k" using Suc.hyps(2) by simp
    show "Suc i < length (rlist ?v)" using Suc.prems by simp
    show "length (ys ?v) = length (rlist ?v)" using Suc.prems by simp
    show "Suc k \<le> i" using lt by simp
    show "\<forall>j. Suc k \<le> j \<and> j < i \<longrightarrow> \<not> vanishes (fst (traj f od (rlist ?v) y0 (Suc j))) tol"
      using Suc.prems by simp
    show "vanishes (fst (traj f od (rlist ?v) y0 (Suc i))) tol" using Suc.prems by simp
    show "\<forall>j\<le>Suc k. ys ?v ! j = traj f od (rlist ?v) y0 j"
      using Suc.prems lt yk by (auto simp: nth_list_update le_Suc_eq)
  qed
  then show ?case using step by simp
qed

lemma for_loop_exhausts:
  assumes "length (ys v) = length (rlist v)" and "k \<le> length (rlist v) - 1"
    and "\<forall>j. k \<le> j \<and> Suc j < length (rlist v) \<longrightarrow> \<not> vanishes (fst (traj f od (rlist v) y0 (Suc j))) tol"
    and "\<forall>j\<le>k. ys v ! j = traj f od (rlist v) y0 j"
  shows "\<exists>v'. for_loop f od tol [k..<length (rlist v) - 1] v = Inr v'
           \<and> rlist v' = rlist v \<and> Rsol v' = Rsol v
           \<and> i_var v' = (if Suc k < length (rlist v) then Some (length (rlist v) - 2) else i_var v)
           \<and> length (ys v') = length (rlist v)
           \<and> (\<forall>j<length (rlist v). ys v' ! j = traj f od (rlist v) y0 j)"
  using assms
proof (induction "length (rlist v) - 1 - k" arbitrary: k v)
  case 0
  then have "k = length (rlist v) - 1" by simp
  then show ?case using 0 by auto
next
  case (Suc d)
  then have lt: "Suc k < length (rlist v)" by simp
  have upt: "[k..<length (rlist v) - 1] = k # [Suc k..<length (rlist v) - 1]"
    using lt by (simp add: upt_conv_Cons)
  let ?v = "v\<lparr>ys := (ys v)[Suc k := od f (ys v ! k) (rlist v ! k, rlist v ! Suc k)], i_var := Some k\<rparr>"
  have nofire: "\<not> vanishes (fst (traj f od (rlist v) y0 (Suc k))) tol"
    using Suc.prems lt by simp
  have yk: "ys v ! k = traj f od (rlist v) y0 k" using Suc.prems by simp
  have step: "for_loop f od tol [k..<length (rlist v) - 1] v
        = for_loop f od tol [Suc k..<length (rlist v) - 1] ?v"
    unfolding upt using Suc.prems lt nofire yk by (simp add: Let_def)
  have "\<exists>v'. for_loop f od tol [Suc k..<length (rlist ?v) - 1] ?v = Inr v'
           \<and> rlist v' = rlist ?v \<and> Rsol v' = Rsol ?v
           \<and> i_var v' = (if Suc (Suc k) < length (rlist ?v) then Some (length (rlist ?v) - 2) else i_var ?v)
           \<and> length (ys v') = length (rlist ?v)
           \<and> (\<forall>j<length (rlist ?v). ys v' ! j = traj f od (rlist ?v) y0 j)"
  proof (rule Suc.hyps(1))
    show "d = length (rlist ?v) - 1 - Suc k" using Suc.hyps(2) by simp
    show "length (ys ?v) = length (rlist ?v)" using Suc.prems by simp
    show "Suc k \<le> length (rlist ?v) - 1" using lt by simp
    show "\<forall>j. Suc k \<le> j \<and> Suc j < length (rlist ?v) \<longrightarrow> \<not> vanishes (fst (traj f od (rlist ?v) y0 (Suc j))) tol"
      using Suc.prems by simp
    show "\<forall>j\<le>Suc k. ys ?v ! j = traj f od (rlist ?v) y0 j"
      using Suc.prems lt yk by (auto simp: nth_list_update le_Suc_eq)
  qed
  then show ?case using step lt by (auto split: if_splits)
qed

lemma run_loop_exhausts:
  assumes "length (ys v) = length (rlist v)" and "2 \<le> length (rlist v)"
    and "\<forall>j. Suc j < length (rlist v) \<longrightarrow>
           \<not> vanishes (fst (traj f od (rlist v) (ys v ! 0) (Suc j))) tol"
  shows "\<exists>v'. run_loop f od tol v = Inr v' \<and> rlist v' = rlist v \<and> Rsol v' = Rsol v
           \<and> i_var v' = Some (length (rlist v) - 2) \<and> length (ys v') = length (rlist v)
           \<and> (\<forall>j<length (rlist v). ys v' ! j = traj f od (rlist v) (ys v ! 0) j)"
proof -
  have "\<exists>v'. for_loop f od tol [0..<length (rlist v) - 1] v = Inr v'
           \<and> rlist v' = rlist v \<and> Rsol v' = Rsol v
           \<and> i_var v' = (if Suc 0 < length (rlist v) then Some (length (rlist v) - 2) else i_var v)
           \<and> length (ys v') = length (rlist v)
           \<and> (\<forall>j<length (rlist v). ys v' ! j = traj f od (rlist v) (ys v ! 0) j)"
  proof (rule for_loop_exhausts)
    show "length (ys v) = length (rlist v)" by (rule assms(1))
    show "0 \<le> length (rlist v) - 1" by simp
    show "\<forall>j. 0 \<le> j \<and> Suc j < length (rlist v) \<longrightarrow>
           \<not> vanishes (fst (traj f od (rlist v) (ys v ! 0) (Suc j))) tol"
      using assms(3) by simp
    show "\<forall>j\<le>0. ys v ! j = traj f od (rlist v) (ys v ! 0) j" by simp
  qed
  moreover have "Suc 0 < length (rlist v)" using assms(2) by simp
  ultimately show ?thesis unfolding run_loop_def by auto
qed

lemma for_loop_total:
  assumes "length (ys v) = length (rlist v)"
  shows "\<exists>v'. for_loop f od tol [k..<length (rlist v) - 1] v = Inr v'
           \<and> rlist v' = rlist v \<and> length (ys v') = length (rlist v)
           \<and> ys v' ! 0 = ys v ! 0
           \<and> (i_var v \<noteq> None \<or> Suc k < length (rlist v) \<longrightarrow> i_var v' \<noteq> None)"
  using assms
proof (induction "length (rlist v) - 1 - k" arbitrary: k v)
  case 0
  then show ?case by auto
next
  case (Suc d)
  then have lt: "Suc k < length (rlist v)" by simp
  have upt: "[k..<length (rlist v) - 1] = k # [Suc k..<length (rlist v) - 1]"
    using lt by (simp add: upt_conv_Cons)
  let ?y = "od f (ys v ! k) (rlist v ! k, rlist v ! Suc k)"
  let ?v = "v\<lparr>ys := (ys v)[Suc k := ?y], i_var := Some k\<rparr>"
  show ?case
  proof (cases "vanishes (fst ?y) tol")
    case True
    then show ?thesis unfolding upt using Suc.prems lt by (simp add: Let_def)
  next
    case False
    then have step: "for_loop f od tol [k..<length (rlist v) - 1] v
        = for_loop f od tol [Suc k..<length (rlist v) - 1] ?v"
      unfolding upt using Suc.prems lt by (simp add: Let_def)
    have "\<exists>v'. for_loop f od tol [Suc k..<length (rlist ?v) - 1] ?v = Inr v'
           \<and> rlist v' = rlist ?v \<and> length (ys v') = length (rlist ?v)
           \<and> ys v' ! 0 = ys ?v ! 0
           \<and> (i_var ?v \<noteq> None \<or> Suc (Suc k) < length (rlist ?v) \<longrightarrow> i_var v' \<noteq> None)"
    proof (rule Suc.hyps(1))
      show "d = length (rlist ?v) - 1 - Suc k" using Suc.hyps(2) by simp
      show "length (ys ?v) = length (rlist ?v)" using Suc.prems by simp
    qed
    then show ?thesis using step by auto
  qed
qed

lemma take_traj:
  assumes "Suc i \<le> length xs" and "\<forall>j\<le>i. xs ! j = g j"
  shows "take (Suc i) xs = map g [0..<Suc i]"
  using assms by (intro nth_equalityI) (auto simp: less_Suc_eq_le simp del: upt_Suc)

lemma truncate_exhausted:
  assumes "i_var v = Some (length (rlist v) - 2)" and "length (ys v) = length (rlist v)"
    and "2 \<le> length (rlist v)"
  shows "\<exists>s. truncate_at v = Inr s \<and> rlist s = take (length (rlist v) - 1) (rlist v)
           \<and> musoldat s = map fst (take (length (rlist v) - 1) (ys v))
           \<and> msoldat s = map snd (take (length (rlist v) - 1) (ys v))
           \<and> Rsol s = Rsol v \<and> i_var s = i_var v \<and> ys s = ys v
           \<and> length (rlist s) = length (rlist v) - 1
           \<and> length (musoldat s) = length (rlist v) - 1
           \<and> length (msoldat s) = length (rlist v) - 1"
proof -
  have eq: "Suc (length (rlist v) - 2) = length (rlist v) - Suc 0" using assms(3) by arith
  show ?thesis using assms(1,2) by (simp add: truncate_at_def eq)
qed

text \<open>
  What the loop enforces about the stored values: for every energy density that the
  truncation keeps after index 0 the test did not hold, so it is a number that is not
  below the tolerance. The masses and the order of consecutive entries are whatever the
  solver returned.
\<close>

lemma for_loop_stored_pass:
  assumes "length (ys v) = length (rlist v)"
    and "\<forall>j. 1 \<le> j \<and> j \<le> k \<longrightarrow> \<not> vanishes (fst (ys v ! j)) tol"
    and "\<forall>i. i_var v = Some i \<longrightarrow> i \<le> k"
    and "for_loop f od tol [k..<length (rlist v) - 1] v = Inr v'"
    and "i_var v' = Some i" and "1 \<le> j" and "j \<le> i"
  shows "\<not> vanishes (fst (ys v' ! j)) tol"
  using assms
proof (induction "length (rlist v) - 1 - k" arbitrary: k v)
  case 0
  then have "[k..<length (rlist v) - 1] = []" by simp
  then have "v' = v" using 0 by simp
  then show ?case using 0 by auto
next
  case (Suc d)
  then have lt: "Suc k < length (rlist v)" by simp
  have upt: "[k..<length (rlist v) - 1] = k # [Suc k..<length (rlist v) - 1]"
    using lt by (simp add: upt_conv_Cons)
  let ?y = "od f (ys v ! k) (rlist v ! k, rlist v ! Suc k)"
  let ?v = "v\<lparr>ys := (ys v)[Suc k := ?y], i_var := Some k\<rparr>"
  show ?case
  proof (cases "vanishes (fst ?y) tol")
    case True
    then have "v' = v\<lparr>ys := (ys v)[Suc k := ?y], Rsol := rlist v ! k, i_var := Some k\<rparr>"
      using Suc.prems(4) lt Suc.prems(1) unfolding upt by (simp add: Let_def)
    then have "i = k" and "ys v' = (ys v)[Suc k := ?y]" using Suc.prems(5) by simp_all
    then show ?thesis using Suc.prems(2,6,7) by (simp add: nth_list_update)
  next
    case False
    then have step: "for_loop f od tol [Suc k..<length (rlist ?v) - 1] ?v = Inr v'"
      using Suc.prems(4) lt Suc.prems(1) unfolding upt by (simp add: Let_def)
    show ?thesis
    proof (rule Suc.hyps(1) [of ?v "Suc k"])
      show "d = length (rlist ?v) - 1 - Suc k" using Suc.hyps(2) by simp
      show "length (ys ?v) = length (rlist ?v)" using Suc.prems(1) by simp
      show "\<forall>j. 1 \<le> j \<and> j \<le> Suc k \<longrightarrow> \<not> vanishes (fst (ys ?v ! j)) tol"
        using Suc.prems(1,2) lt False by (auto simp: nth_list_update le_Suc_eq)
      show "\<forall>i. i_var ?v = Some i \<longrightarrow> i \<le> Suc k" by simp
      show "for_loop f od tol [Suc k..<length (rlist ?v) - 1] ?v = Inr v'" by (rule step)
      show "i_var v' = Some i" by (rule Suc.prems(5))
      show "1 \<le> j" by (rule Suc.prems(6))
      show "j \<le> i" by (rule Suc.prems(7))
    qed
  qed
qed

lemma stored_values_pass_test:
  assumes "length (ys v) = length (rlist v)" and "i_var v = None"
    and "run_loop f od tol v = Inr v'" and "truncate_at v' = Inr s"
    and "1 \<le> j" and "j < length (musoldat s)"
  shows "\<not> vanishes (musoldat s ! j) tol"
proof -
  obtain i where i: "i_var v' = Some i"
    and ms: "musoldat s = map fst (take (i + 1) (ys v'))"
    using assms(4) by (auto simp: truncate_at_def split: option.splits)
  have ji: "j \<le> i" and jl: "j < length (ys v')" using assms(6) ms by simp_all
  have "\<not> vanishes (fst (ys v' ! j)) tol"
  proof (rule for_loop_stored_pass [of v 0 tol f od v' i j])
    show "length (ys v) = length (rlist v)" by (rule assms(1))
    show "\<forall>j. 1 \<le> j \<and> j \<le> 0 \<longrightarrow> \<not> vanishes (fst (ys v ! j)) tol" by simp
    show "\<forall>i. i_var v = Some i \<longrightarrow> i \<le> 0" using assms(2) by simp
    show "for_loop f od tol [0..<length (rlist v) - 1] v = Inr v'"
      using assms(3) by (simp add: run_loop_def)
    show "i_var v' = Some i" by (rule i)
    show "1 \<le> j" by (rule assms(5))
    show "j \<le> i" by (rule ji)
  qed
  moreover have "musoldat s ! j = fst (ys v' ! j)" using ms ji jl by simp
  ultimately show ?thesis by simp
qed


section \<open>Interpolants over the truncated solution\<close>

lemma interpolate_solution_returns:
  assumes "intpeos tab = Inr e"
    and "length (musoldat s) = length (rlist s)" and "length (msoldat s) = length (rlist s)"
    and "2 \<le> length (rlist s)"
  shows "\<exists>mus ms ps.
           interp1d_new (rlist s) (musoldat s) True NaN = Inr mus
         \<and> interp1d_new (rlist s) (msoldat s) False (last (msoldat s)) = Inr ms
         \<and> interp1d_new (rlist s) (map (interp1d_eval (pmuintp e)) (musoldat s)) True NaN = Inr ps
         \<and> interpolate_solution e s
             = Inr \<lparr>musol = mus, msol = ms, psol = ps, Msol = interp1d_eval ms (Fin (Rsol s))\<rparr>"
proof -
  obtain mus where mus: "interp1d_new (rlist s) (musoldat s) True NaN = Inr mus"
    using assms by (simp add: interp1d_new_eq_Inr)
  obtain ms where ms: "interp1d_new (rlist s) (msoldat s) False (last (msoldat s)) = Inr ms"
    using assms by (simp add: interp1d_new_eq_Inr)
  obtain ps where ps:
    "interp1d_new (rlist s) (map (interp1d_eval (pmuintp e)) (musoldat s)) True NaN = Inr ps"
    using assms by (simp add: interp1d_new_eq_Inr)
  have be: "\<not> bounds_error ms" using interp1d_new_table(3) [OF ms] by simp
  have call: "interp1d_call ms (Fin (Rsol s)) = Inr (interp1d_eval ms (Fin (Rsol s)))"
    using be by (simp add: interp1d_call_def)
  have "interpolate_solution e s
          = Inr \<lparr>musol = mus, msol = ms, psol = ps, Msol = interp1d_eval ms (Fin (Rsol s))\<rparr>"
    by (simp add: interpolate_solution_def mus ms ps call p_array_returns [OF assms(1)])
  then show ?thesis using mus ms ps by blast
qed

lemma interpolate_solution_tpl_returns:
  assumes "intpeos tab = Inr e"
    and "length (musoldat s) = length (rlist s)" and "length (msoldat s) = length (rlist s)"
    and "2 \<le> length (rlist s)" and "Rsol s \<in> set (rlist s)"
  shows "\<exists>mus ms ps.
           interpolate_solution_tpl e s
             = Inr \<lparr>musol = mus, msol = ms, psol = ps, Msol = interp1d_eval ms (Fin (Rsol s))\<rparr>"
proof -
  obtain mus where mus: "interp1d_new (rlist s) (musoldat s) True NaN = Inr mus"
    using assms by (simp add: interp1d_new_eq_Inr)
  obtain ms where ms: "interp1d_new (rlist s) (msoldat s) True NaN = Inr ms"
    using assms by (simp add: interp1d_new_eq_Inr)
  obtain ps where ps:
    "interp1d_new (rlist s) (map (interp1d_eval (pmuintp e)) (musoldat s)) True NaN = Inr ps"
    using assms by (simp add: interp1d_new_eq_Inr)
  have "Rsol s \<in> set (ix ms)" using interp1d_new_table(2) [OF ms] assms(5) by simp
  then have "hd (ix ms) \<le> Rsol s" and "Rsol s \<le> last (ix ms)"
    using sorted_between [OF interp1d_new_table(1) [OF ms]] by simp_all
  then have "\<not> out_of_bounds ms (Fin (Rsol s))" by simp
  then have call: "interp1d_call ms (Fin (Rsol s)) = Inr (interp1d_eval ms (Fin (Rsol s)))"
    by (simp add: interp1d_call_def)
  have "interpolate_solution_tpl e s
          = Inr \<lparr>musol = mus, msol = ms, psol = ps, Msol = interp1d_eval ms (Fin (Rsol s))\<rparr>"
    by (simp add: interpolate_solution_tpl_def mus ms ps call p_array_returns [OF assms(1)])
  then show ?thesis by blast
qed


section \<open>Concrete runs\<close>

text \<open>
  Evaluations on the three-row table with the explicit Euler step, used below as
  instances. On the grid of three points from 1/1000 to 10 with central density 2, and
  in the template notebook on the grid from 999/100 to 10, the energy density stays
  above the tolerance \<open>10\<^sup>-\<^sup>6\<close> at both steps, so that the loop reaches the end
  of the grid.
\<close>

lemma intpeos_toy: "intpeos (geteos toy_table) = Inr toy_eos"
  by (simp add: toy_table_def toy_eos_def intpeos_def interp1d_new_def np_gradient_def
      Let_def upt_rec)

lemma Mu_toy_1: "Mu toy_eos (Fin 1) = Inr (Fin 1)"
  by (simp add: Mu_def interp1d_call_def toy_eos_def)

lemma Mu_toy_2: "Mu toy_eos (Fin 2) = Inr (Fin 2)"
  by (simp add: Mu_def interp1d_call_def toy_eos_def)

lemma Mu_toy_out: "x < 0 \<or> 2 < x \<Longrightarrow> Mu toy_eos (Fin x) = Inr (Fin 0)"
  by (auto simp: Mu_def interp1d_call_def toy_eos_def)

lemma linspace_1m: "linspace (1 / 1000) 10 1 = Inr [1 / 1000]"
  by (simp add: linspace_def)

lemma linspace_2: "linspace (1 / 1000) 10 2 = Inr [1 / 1000, 10]"
  by (simp add: linspace_def upt_rec)

lemma linspace_3: "linspace 1 10 3 = Inr [1, 11 / 2, 10]"
  by (simp add: linspace_def upt_rec)

lemma linspace_3m: "linspace (1 / 1000) 10 3 = Inr [1 / 1000, 10001 / 2000, 10]"
  by (simp add: linspace_def upt_rec)

lemma linspace_3t: "linspace (999 / 100) 10 3 = Inr [999 / 100, 1999 / 200, 10]"
  by (simp add: linspace_def upt_rec)

lemma initialize_toy:
  "initialize toy_table 2 1 3 =
     Inr (toy_eos, Fin 2,
          \<lparr>rlist = [1, 11 / 2, 10],
           ys = [(Fin 2, Fin (8 * pi / 3)), (Fin 0, Fin 0), (Fin 0, Fin 0)],
           Rsol = 10, i_var = None\<rparr>)"
  by (simp add: initialize_def intpeos_toy Mu_toy_2 linspace_3 y0_of_def)

lemma initialize_toy_vacuum:
  "x < 0 \<or> 2 < x \<Longrightarrow> initialize toy_table x 1 3 =
     Inr (toy_eos, Fin 0,
          \<lparr>rlist = [1, 11 / 2, 10],
           ys = [(Fin 0, Fin 0), (Fin 0, Fin 0), (Fin 0, Fin 0)],
           Rsol = 10, i_var = None\<rparr>)"
  by (simp add: initialize_def intpeos_toy Mu_toy_out linspace_3 y0_of_def)

lemma initialize_toy_3:
  "initialize toy_table 2 (1 / 1000) 3 =
     Inr (toy_eos, Fin 2,
          \<lparr>rlist = [1 / 1000, 10001 / 2000, 10],
           ys = [(Fin 2, Fin (pi / 375000000)), (Fin 0, Fin 0), (Fin 0, Fin 0)],
           Rsol = 10, i_var = None\<rparr>)"
  by (simp add: initialize_def intpeos_toy Mu_toy_2 linspace_3m y0_of_def power_divide)

lemma y0_toy: "y0_of (Fin 2) (1 / 1000) = (Fin 2, Fin (pi / 375000000))"
  by (simp add: y0_of_def power_divide)

lemma euler_struceqs:
  "r0 \<noteq> 0 \<Longrightarrow> euler_odeint struceqs (Fin mu, Fin m) (r0, r1)
     = (Fin (mu + (r1 - r0) * (- mu * m / r0\<^sup>2)), Fin (m + (r1 - r0) * (4 * pi * r0\<^sup>2 * mu)))"
  by (simp add: struceqs_def)

lemma toy_never_fires:
  "\<forall>j. Suc j < 3 \<longrightarrow>
     \<not> vanishes (fst (traj struceqs euler_odeint [1 / 1000, 10001 / 2000, 10]
                       (Fin 2, Fin (pi / 375000000)) (Suc j))) (1 / 10 ^ 6)"
proof -
  define A where "A = 2 - 3333 * pi / 125000"
  define B where "B = 29999 * pi / 750000000"
  let ?T = "traj struceqs euler_odeint [1 / 1000, 10001 / 2000, 10] (Fin 2, Fin (pi / 375000000))"
  have t1: "?T (Suc 0) = (Fin A, Fin B)"
    by (simp add: struceqs_def power_divide A_def B_def)
  have "?T (Suc (Suc 0)) = euler_odeint struceqs (Fin A, Fin B) (10001 / 2000, 10)"
    unfolding traj.simps(2) [of _ _ _ _ "Suc 0"] t1 by simp
  then have t2: "fst (?T (Suc (Suc 0)))
       = Fin (A + (10 - 10001 / 2000) * (- A * B / (10001 / 2000)\<^sup>2))"
    by (simp add: euler_struceqs del: euler_odeint.simps)
  have A1: "1 \<le> A"
  proof -
    have "3333 * pi / 125000 < 1" using pi_less_4 by simp
    then show ?thesis unfolding A_def by linarith
  qed
  have B0: "0 \<le> B" unfolding B_def by simp
  have B1: "B \<le> 1" 
  proof -
    have "29999 * pi / 750000000 < 1" using pi_less_4 by simp
    then show ?thesis unfolding B_def by linarith
  qed
  define q :: real where "q = (10 - 10001 / 2000) / (10001 / 2000)\<^sup>2"
  have q: "0 \<le> q" "q \<le> 1 / 2" unfolding q_def by (simp_all add: power2_eq_square)
  have "q * B \<le> (1 / 2) * 1" using q B0 B1 by (intro mult_mono) simp_all
  then have fac: "1 / 2 \<le> 1 - q * B" by linarith
  have "1 * (1 / 2) \<le> A * (1 - q * B)" using A1 fac by (intro mult_mono) simp_all
  moreover have "A + (10 - 10001 / 2000) * (- A * B / (10001 / 2000)\<^sup>2) = A * (1 - q * B)"
    unfolding q_def by (simp add: algebra_simps)
  ultimately have "1 / 2 \<le> A + (10 - 10001 / 2000) * (- A * B / (10001 / 2000)\<^sup>2)"
    by simp
  then have n2: "\<not> vanishes (fst (?T (Suc (Suc 0)))) (1 / 10 ^ 6)"
    unfolding t2 by (simp add: vanishes_def)
  have n1: "\<not> vanishes (fst (?T (Suc 0))) (1 / 10 ^ 6)"
    unfolding t1 using A1 by (simp add: vanishes_def)
  show ?thesis
  proof (intro allI impI)
    fix j :: nat assume "Suc j < 3"
    then have "j = 0 \<or> j = Suc 0" by arith
    then show "\<not> vanishes (fst (?T (Suc j))) (1 / 10 ^ 6)" using n1 n2 by auto
  qed
qed

lemma initialize_tpl_toy:
  "initialize_tpl toy_table (999 / 100) 3 =
     Inr (toy_eos,
          \<lparr>rlist = [999 / 100, 1999 / 200, 10],
           ys = [y0_tpl, (Fin 0, Fin 0), (Fin 0, Fin 0)],
           Rsol = 1999 / 200, i_var = None\<rparr>)"
  by (simp add: initialize_tpl_def intpeos_toy linspace_3t)

lemma tpl_never_fires:
  "\<forall>j. Suc j < 3 \<longrightarrow>
     \<not> vanishes (fst (traj struceqs_tpl euler_odeint [999 / 100, 1999 / 200, 10] y0_tpl (Suc j)))
         (1 / 10 ^ 6)"
proof -
  let ?T = "traj struceqs_tpl euler_odeint [999 / 100, 1999 / 200, 10] y0_tpl"
  have t1: "?T (Suc 0) = (Fin (1997999 / 199800), Fin (1001 / 2000))"
    by (simp add: struceqs_tpl_def y0_tpl_def)
  have t2: "?T (Suc (Suc 0)) = (Fin (7993993999 / 799600000), Fin (7993996001 / 7992000000))"
    by (simp add: struceqs_tpl_def y0_tpl_def)
  have n1: "\<not> vanishes (fst (?T (Suc 0))) (1 / 10 ^ 6)"
    unfolding t1 by (simp add: vanishes_def)
  have n2: "\<not> vanishes (fst (?T (Suc (Suc 0)))) (1 / 10 ^ 6)"
    unfolding t2 by (simp add: vanishes_def)
  show ?thesis
  proof (intro allI impI)
    fix j :: nat assume "Suc j < 3"
    then have "j = 0 \<or> j = Suc 0" by arith
    then show "\<not> vanishes (fst (?T (Suc j))) (1 / 10 ^ 6)" using n1 n2 by auto
  qed
qed







section \<open>The quantity that the loop tests\<close>

text \<open>
  Claim C1 says that the loop compares \<open>pressure(mu\<^sub>i\<^sub>+\<^sub>1)\<close> with the tolerance. The
  loop reads \<^verbatim>\<open>pressure = ys[i+1][0]\<close>, which is the integrated energy density itself
  (the comments of the cell call it the pressure). The run below, on the three-row table
  with central density 2, a grid of two points from 1/1000 to 10 and tolerance 3/2, shows
  the difference: the pressure at the new grid point is below the tolerance, the energy
  density is not, and the loop does not stop (\<^verbatim>\<open>Rsol\<close> keeps its initial value 10).
\<close>

theorem loop_tests_energy_density:
  "initialize toy_table 2 (1 / 1000) 2 =
     Inr (toy_eos, Fin 2,
          \<lparr>rlist = [1 / 1000, 10], ys = [(Fin 2, Fin (pi / 375000000)), (Fin 0, Fin 0)],
           Rsol = 10, i_var = None\<rparr>)
   \<and> run_loop struceqs euler_odeint (3 / 2)
        \<lparr>rlist = [1 / 1000, 10], ys = [(Fin 2, Fin (pi / 375000000)), (Fin 0, Fin 0)],
         Rsol = 10, i_var = None\<rparr>
      = Inr \<lparr>rlist = [1 / 1000, 10],
             ys = [(Fin 2, Fin (pi / 375000000)),
                   (Fin (2 - 3333 * pi / 62500), Fin (14999 * pi / 187500000))],
             Rsol = 10, i_var = Some 0\<rparr>
   \<and> p toy_eos (Fin (2 - 3333 * pi / 62500)) = Inr (Fin (1 - 3333 * pi / 125000))
   \<and> vanishes (Fin (1 - 3333 * pi / 125000)) (3 / 2)
   \<and> \<not> vanishes (Fin (2 - 3333 * pi / 62500)) (3 / 2)"
proof (intro conjI)
  show "initialize toy_table 2 (1 / 1000) 2 =
     Inr (toy_eos, Fin 2,
          \<lparr>rlist = [1 / 1000, 10], ys = [(Fin 2, Fin (pi / 375000000)), (Fin 0, Fin 0)],
           Rsol = 10, i_var = None\<rparr>)"
    by (simp add: initialize_def intpeos_toy Mu_toy_2 linspace_2 y0_of_def power_divide)
  show "run_loop struceqs euler_odeint (3 / 2)
        \<lparr>rlist = [1 / 1000, 10], ys = [(Fin 2, Fin (pi / 375000000)), (Fin 0, Fin 0)],
         Rsol = 10, i_var = None\<rparr>
      = Inr \<lparr>rlist = [1 / 1000, 10],
             ys = [(Fin 2, Fin (pi / 375000000)),
                   (Fin (2 - 3333 * pi / 62500), Fin (14999 * pi / 187500000))],
             Rsol = 10, i_var = Some 0\<rparr>"
    using pi_less_4 by (simp add: run_loop_def struceqs_def power_divide Let_def vanishes_def)
  have "(1 - 3333 * pi / 62500) / 2 + 1 / 2 = 1 - 3333 * pi / 125000"
    by (simp add: field_simps)
  then show "p toy_eos (Fin (2 - 3333 * pi / 62500)) = Inr (Fin (1 - 3333 * pi / 125000))"
    using pi_less_4 pi_gt_zero by (simp add: p_def interp1d_call_def toy_eos_def)
  have "0 < 3333 * pi / 125000" using pi_gt_zero by simp
  then have "1 - 3333 * pi / 125000 < 3 / 2" by linarith
  then show "vanishes (Fin (1 - 3333 * pi / 125000)) (3 / 2)"
    by (simp add: vanishes_def)
  have "3333 * pi / 62500 < 1 / 2" using pi_less_4 by simp
  then have "\<not> 2 - 3333 * pi / 62500 < 3 / 2" by linarith
  then show "\<not> vanishes (Fin (2 - 3333 * pi / 62500)) (3 / 2)"
    by (simp add: vanishes_def)
qed

section \<open>The surface test\<close>

text \<open>
  Claim C2, as the code has it. The test of the loop is strict: it holds exactly when
  the tested value is a NaN or is below the tolerance, and a value equal to the
  tolerance does not end the integration. When the test holds for the value integrated
  at the first grid step, the loop stops at the first step with \<^verbatim>\<open>Rsol\<close> equal to
  the starting step and one grid point kept.
\<close>

theorem surface_test_is_strict:
  "(vanishes pr t \<longleftrightarrow> pr = NaN \<or> (\<exists>x. pr = Fin x \<and> x < t))
   \<and> \<not> vanishes (Fin t) t
   \<and> (initialize crusted rhoc stp pts = Inr (e, muc, v0) \<and> 2 \<le> pts
        \<and> vanishes (fst (od struceqs (y0_of muc stp) (rlist v0 ! 0, rlist v0 ! 1))) tol
      \<longrightarrow> (\<exists>v s. run_loop struceqs od tol v0 = Inr v \<and> truncate_at v = Inr s
             \<and> i_var s = Some 0 \<and> Rsol s = stp \<and> rlist s = [stp]))"
proof (intro conjI impI)
  show "vanishes pr t \<longleftrightarrow> pr = NaN \<or> (\<exists>x. pr = Fin x \<and> x < t)" by (rule vanishes_iff)
  show "\<not> vanishes (Fin t) t" by (simp add: vanishes_def)
next
  assume h: "initialize crusted rhoc stp pts = Inr (e, muc, v0) \<and> 2 \<le> pts
        \<and> vanishes (fst (od struceqs (y0_of muc stp) (rlist v0 ! 0, rlist v0 ! 1))) tol"
  then have init: "initialize crusted rhoc stp pts = Inr (e, muc, v0)" by simp
  note f = initialize_facts [OF init]
  have "2 \<le> nat pts" using h by linarith
  then have lrl: "2 \<le> length (rlist v0)" using f(5) by simp
  have y0: "ys v0 ! 0 = y0_of muc stp" by (rule f(7))
  have "\<exists>v'. for_loop struceqs od tol [0..<length (rlist v0) - 1] v0 = Inr v'
           \<and> rlist v' = rlist v0 \<and> Rsol v' = rlist v0 ! 0 \<and> i_var v' = Some 0
           \<and> length (ys v') = length (rlist v0)
           \<and> (\<forall>j\<le>Suc 0. ys v' ! j = traj struceqs od (rlist v0) (y0_of muc stp) j)"
  proof (rule for_loop_breaks)
    show "Suc 0 < length (rlist v0)" using lrl by simp
    show "length (ys v0) = length (rlist v0)" by (rule f(6))
    show "(0::nat) \<le> 0" by simp
    show "\<forall>j. 0 \<le> j \<and> j < 0 \<longrightarrow>
            \<not> vanishes (fst (traj struceqs od (rlist v0) (y0_of muc stp) (Suc j))) tol" by simp
    show "vanishes (fst (traj struceqs od (rlist v0) (y0_of muc stp) (Suc 0))) tol"
      using h by simp
    show "\<forall>j\<le>0. ys v0 ! j = traj struceqs od (rlist v0) (y0_of muc stp) j"
      using y0 by simp
  qed
  then obtain v where v: "for_loop struceqs od tol [0..<length (rlist v0) - 1] v0 = Inr v"
    "rlist v = rlist v0" "Rsol v = rlist v0 ! 0" "i_var v = Some 0"
    by blast
  have rl1: "take (Suc 0) (rlist v0) = [stp]"
    using lrl f(8) by (cases "rlist v0") simp_all
  let ?s = "\<lparr>rlist = take (0 + 1) (rlist v), ys = ys v, Rsol = Rsol v, i_var = i_var v,
             musoldat = map fst (take (0 + 1) (ys v)),
             msoldat = map snd (take (0 + 1) (ys v))\<rparr>"
  have tr: "truncate_at v = Inr ?s" using v(4) by (simp add: truncate_at_def)
  show "\<exists>v s. run_loop struceqs od tol v0 = Inr v \<and> truncate_at v = Inr s
             \<and> i_var s = Some 0 \<and> Rsol s = stp \<and> rlist s = [stp]"
    apply (rule exI [of _ v], rule exI [of _ ?s])
    using v tr f(8) rl1 by (simp add: run_loop_def)
qed

theorem surface_test_is_strict_witness:
  "(vanishes (Fin 0) 1 \<longleftrightarrow> Fin 0 = NaN \<or> (\<exists>x. Fin 0 = Fin x \<and> x < 1))
   \<and> \<not> vanishes (Fin 1) 1
   \<and> (\<exists>v s. run_loop struceqs euler_odeint (1 / 10 ^ 6)
               \<lparr>rlist = [1, 11 / 2, 10],
                ys = [(Fin 2, Fin (8 * pi / 3)), (Fin 0, Fin 0), (Fin 0, Fin 0)],
                Rsol = 10, i_var = None\<rparr> = Inr v
         \<and> truncate_at v = Inr s \<and> i_var s = Some 0 \<and> Rsol s = 1 \<and> rlist s = [1])"
proof -
  have "fst (euler_odeint struceqs (y0_of (Fin 2) 1) (1, 11 / 2)) = Fin (2 - 24 * pi)"
    by (simp add: struceqs_def y0_of_def)
  moreover have "2 - 24 * pi < 1 / 10 ^ 6" using pi_ge_two by simp
  ultimately have "vanishes (fst (euler_odeint struceqs (y0_of (Fin 2) 1) (1, 11 / 2))) (1 / 10 ^ 6)"
    by (simp add: vanishes_def)
  then show ?thesis
    using surface_test_is_strict [of "Fin 0" 1 toy_table 2 1 3 toy_eos "Fin 2"
        "\<lparr>rlist = [1, 11 / 2, 10],
          ys = [(Fin 2, Fin (8 * pi / 3)), (Fin 0, Fin 0), (Fin 0, Fin 0)],
          Rsol = 10, i_var = None\<rparr>" euler_odeint "1 / 10 ^ 6"]
      initialize_toy
    by simp
qed

text \<open>
  The claim as stated (an inclusive test) fails: a step that returns an energy density
  exactly equal to the tolerance does not stop the loop, which runs to the end of the grid
  and leaves \<^verbatim>\<open>Rsol\<close> at its initial value.
\<close>

theorem pressure_equal_to_tolerance_continues:
  "\<not> vanishes (Fin (1 / 10 ^ 6)) (1 / 10 ^ 6)
   \<and> run_loop struceqs euler_odeint (1 / 10 ^ 6)
        \<lparr>rlist = [1, 2], ys = [(Fin (1 / 10 ^ 6), Fin 0), (Fin 0, Fin 0)],
         Rsol = 2, i_var = None\<rparr>
      = Inr \<lparr>rlist = [1, 2],
             ys = [(Fin (1 / 10 ^ 6), Fin 0), (Fin (1 / 10 ^ 6), Fin (4 * pi / 10 ^ 6))],
             Rsol = 2, i_var = Some 0\<rparr>"
  by (simp add: vanishes_def run_loop_def struceqs_def Let_def)

section \<open>Stopping at the surface\<close>

text \<open>
  Claim C3. When the test of the loop first holds at step \<open>i\<close> (the tested value is
  below the tolerance or is a NaN), the loop stops with \<^verbatim>\<open>Rsol = rlist[i]\<close>, the
  radius before the failing point, and the truncation keeps exactly the entries
  \<open>0..i\<close> of the radii and of both columns of \<^verbatim>\<open>ys\<close>: the failing point, stored
  at \<open>i + 1\<close>, is left out. The statement holds for any right-hand side and solver,
  so for both notebooks.
\<close>

theorem surface_found_at_step:
  assumes "length (ys v) = length (rlist v)"
    and "Suc i < length (rlist v)"
    and "\<forall>j<i. \<not> vanishes (fst (traj f od (rlist v) (ys v ! 0) (Suc j))) tol"
    and "vanishes (fst (traj f od (rlist v) (ys v ! 0) (Suc i))) tol"
  shows "\<exists>v' s. run_loop f od tol v = Inr v' \<and> truncate_at v' = Inr s
           \<and> i_var s = Some i \<and> Rsol s = rlist v ! i
           \<and> rlist s = take (Suc i) (rlist v)
           \<and> musoldat s = map fst (take (Suc i) (ys v'))
           \<and> msoldat s = map snd (take (Suc i) (ys v'))
           \<and> take (Suc i) (ys v') = map (traj f od (rlist v) (ys v ! 0)) [0..<Suc i]
           \<and> length (rlist s) = Suc i \<and> length (musoldat s) = Suc i
           \<and> length (msoldat s) = Suc i"
proof -
  have "\<exists>v'. for_loop f od tol [0..<length (rlist v) - 1] v = Inr v'
           \<and> rlist v' = rlist v \<and> Rsol v' = rlist v ! i \<and> i_var v' = Some i
           \<and> length (ys v') = length (rlist v)
           \<and> (\<forall>j\<le>Suc i. ys v' ! j = traj f od (rlist v) (ys v ! 0) j)"
  proof (rule for_loop_breaks)
    show "Suc i < length (rlist v)" by (rule assms(2))
    show "length (ys v) = length (rlist v)" by (rule assms(1))
    show "0 \<le> i" by simp
    show "\<forall>j. 0 \<le> j \<and> j < i \<longrightarrow> \<not> vanishes (fst (traj f od (rlist v) (ys v ! 0) (Suc j))) tol"
      using assms(3) by simp
    show "vanishes (fst (traj f od (rlist v) (ys v ! 0) (Suc i))) tol" by (rule assms(4))
    show "\<forall>j\<le>0. ys v ! j = traj f od (rlist v) (ys v ! 0) j" by simp
  qed
  then obtain v' where v': "for_loop f od tol [0..<length (rlist v) - 1] v = Inr v'"
    "rlist v' = rlist v" "Rsol v' = rlist v ! i" "i_var v' = Some i"
    "length (ys v') = length (rlist v)"
    "\<forall>j\<le>Suc i. ys v' ! j = traj f od (rlist v) (ys v ! 0) j"
    by blast
  have tk: "take (Suc i) (ys v') = map (traj f od (rlist v) (ys v ! 0)) [0..<Suc i]"
  proof (rule take_traj)
    show "Suc i \<le> length (ys v')" using v'(5) assms(2) by simp
    show "\<forall>j\<le>i. ys v' ! j = traj f od (rlist v) (ys v ! 0) j"
    proof (intro allI impI)
      fix j assume "j \<le> i"
      then have "j \<le> Suc i" by simp
      then show "ys v' ! j = traj f od (rlist v) (ys v ! 0) j" using v'(6) by blast
    qed
  qed
  let ?s = "\<lparr>rlist = take (i + 1) (rlist v'), ys = ys v', Rsol = Rsol v', i_var = i_var v',
             musoldat = map fst (take (i + 1) (ys v')),
             msoldat = map snd (take (i + 1) (ys v'))\<rparr>"
  have rl: "run_loop f od tol v = Inr v'" using v'(1) by (simp add: run_loop_def)
  have tr: "truncate_at v' = Inr ?s" using v'(4) by (simp add: truncate_at_def)
  have len: "Suc i \<le> length (rlist v)" "Suc i \<le> length (ys v')" using assms v'(5) by simp_all
  show ?thesis
    apply (rule exI [of _ v'], rule exI [of _ ?s])
    using rl tr tk v'(2,3,4) len by simp
qed

theorem surface_found_at_step_witness:
  "\<exists>v' s. run_loop struceqs euler_odeint (1 / 2)
             \<lparr>rlist = [1, 2, 3], ys = [(Fin 1, Fin 0), (Fin 0, Fin 0), (Fin 0, Fin 0)],
              Rsol = 3, i_var = None\<rparr> = Inr v'
     \<and> truncate_at v' = Inr s \<and> i_var s = Some 1 \<and> Rsol s = 2 \<and> rlist s = [1, 2]
     \<and> musoldat s = [Fin 1, Fin 1] \<and> msoldat s = [Fin 0, Fin (4 * pi)]"
proof -
  let ?v = "\<lparr>rlist = [1, 2, 3], ys = [(Fin 1, Fin 0), (Fin 0, Fin 0), (Fin 0, Fin 0)],
              Rsol = 3, i_var = None\<rparr>"
  have t1: "traj struceqs euler_odeint [1, 2, 3] (Fin 1, Fin 0) (Suc 0) = (Fin 1, Fin (4 * pi))"
    by (simp add: struceqs_def)
  have t2: "fst (traj struceqs euler_odeint [1, 2, 3] (Fin 1, Fin 0) (Suc (Suc 0))) = Fin (1 - pi)"
    by (simp add: struceqs_def t1)
  have h3: "\<forall>j<Suc 0. \<not> vanishes (fst (traj struceqs euler_odeint (rlist ?v) (ys ?v ! 0) (Suc j))) (1 / 2)"
    using t1 by (simp add: vanishes_def)
  have h4: "vanishes (fst (traj struceqs euler_odeint (rlist ?v) (ys ?v ! 0) (Suc (Suc 0)))) (1 / 2)"
    using t2 pi_ge_two by (simp add: vanishes_def del: traj.simps)
  show ?thesis
    using surface_found_at_step [of ?v "Suc 0" struceqs euler_odeint "1 / 2", OF _ _ h3 h4] t1
    by (auto simp: upt_rec)
qed

section \<open>Grid exhaustion\<close>

text \<open>
  Claim C4, as the code has it. On a grid of at least three points, when the surface test
  holds at no step, the run raises nothing: in StellarStruc-NG.ipynb \<^verbatim>\<open>Rsol\<close> stays the
  last grid radius (10), in the template notebook the second-to-last one, the loop
  variable ends at \<open>n - 2\<close>, and the mass and radius of the output cell are computed.
\<close>

theorem grid_exhaustion_is_soft:
  "(initialize crusted rhoc stp pts = Inr (e, muc, v0) \<and> 3 \<le> pts
      \<and> (\<forall>j. Suc j < length (rlist v0) \<longrightarrow>
             \<not> vanishes (fst (traj struceqs od (rlist v0) (y0_of muc stp) (Suc j))) tol)
    \<longrightarrow> (\<exists>s pr. run_code od crusted rhoc stp pts tol = Inr (s, pr)
          \<and> i_var s = Some (nat pts - 2) \<and> Rsol s = last (rlist v0) \<and> Rsol s = 10
          \<and> output_results (s, pr) = (R_km 10, M_msun (Msol pr))))
   \<and> (initialize_tpl crusted stp pts = Inr (e', w0) \<and> 3 \<le> pts
      \<and> (\<forall>j. Suc j < length (rlist w0) \<longrightarrow>
             \<not> vanishes (fst (traj struceqs_tpl od (rlist w0) y0_tpl (Suc j))) tol)
    \<longrightarrow> (\<exists>s pr. run_code_tpl od crusted stp pts tol = Inr (s, pr)
          \<and> i_var s = Some (nat pts - 2) \<and> Rsol s = rlist w0 ! (nat pts - 2)
          \<and> output_results (s, pr) = (R_km (rlist w0 ! (nat pts - 2)), M_msun (Msol pr))))"
proof (intro conjI impI)
  assume h: "initialize crusted rhoc stp pts = Inr (e, muc, v0) \<and> 3 \<le> pts
      \<and> (\<forall>j. Suc j < length (rlist v0) \<longrightarrow>
             \<not> vanishes (fst (traj struceqs od (rlist v0) (y0_of muc stp) (Suc j))) tol)"
  then have init: "initialize crusted rhoc stp pts = Inr (e, muc, v0)" by simp
  note f = initialize_facts [OF init]
  have n3: "3 \<le> length (rlist v0)" using h f(5) by linarith
  have "\<exists>v'. run_loop struceqs od tol v0 = Inr v' \<and> rlist v' = rlist v0 \<and> Rsol v' = Rsol v0
           \<and> i_var v' = Some (length (rlist v0) - 2) \<and> length (ys v') = length (rlist v0)
           \<and> (\<forall>j<length (rlist v0). ys v' ! j = traj struceqs od (rlist v0) (ys v0 ! 0) j)"
  proof (rule run_loop_exhausts)
    show "length (ys v0) = length (rlist v0)" by (rule f(6))
    show "2 \<le> length (rlist v0)" using n3 by simp
    show "\<forall>j. Suc j < length (rlist v0) \<longrightarrow>
           \<not> vanishes (fst (traj struceqs od (rlist v0) (ys v0 ! 0) (Suc j))) tol"
      using h f(7) by simp
  qed
  then obtain v where v: "run_loop struceqs od tol v0 = Inr v" "rlist v = rlist v0"
    "Rsol v = Rsol v0" "i_var v = Some (length (rlist v0) - 2)"
    "length (ys v) = length (rlist v0)"
    by blast
  obtain s where s: "truncate_at v = Inr s" "Rsol s = Rsol v" "i_var s = i_var v"
    "length (rlist s) = length (rlist v) - 1" "length (musoldat s) = length (rlist v) - 1"
    "length (msoldat s) = length (rlist v) - 1"
    using truncate_exhausted [of v] v n3 by auto
  have l2: "2 \<le> length (rlist s)" using s(4) v(2) n3 by arith
  have "\<exists>pr. interpolate_solution e s = Inr pr"
    using interpolate_solution_returns [OF f(1), of s] s(4,5,6) l2 by auto
  then obtain pr where pr: "interpolate_solution e s = Inr pr" by blast
  have run: "run_code od crusted rhoc stp pts tol = Inr (s, pr)"
    by (simp add: run_code_def init v(1) s(1) pr)
  have last10: "last (rlist v0) = 10" using linspace_last [OF f(4)] h by simp
  have "i_var s = Some (nat pts - 2)" using s(3) v(4) f(5) by simp
  moreover have "Rsol s = last (rlist v0)" using s(2) v(3) f(9) by simp
  moreover have "output_results (s, pr) = (R_km (Rsol s), M_msun (Msol pr))"
    by (simp add: output_results_def)
  ultimately show "\<exists>s pr. run_code od crusted rhoc stp pts tol = Inr (s, pr)
          \<and> i_var s = Some (nat pts - 2) \<and> Rsol s = last (rlist v0) \<and> Rsol s = 10
          \<and> output_results (s, pr) = (R_km 10, M_msun (Msol pr))"
    using run last10 by auto
next
  assume h: "initialize_tpl crusted stp pts = Inr (e', w0) \<and> 3 \<le> pts
      \<and> (\<forall>j. Suc j < length (rlist w0) \<longrightarrow>
             \<not> vanishes (fst (traj struceqs_tpl od (rlist w0) y0_tpl (Suc j))) tol)"
  then have init: "initialize_tpl crusted stp pts = Inr (e', w0)" by simp
  note f = initialize_tpl_facts [OF init]
  have n3: "3 \<le> length (rlist w0)" using h f(4) by linarith
  have "\<exists>v'. run_loop struceqs_tpl od tol w0 = Inr v' \<and> rlist v' = rlist w0 \<and> Rsol v' = Rsol w0
           \<and> i_var v' = Some (length (rlist w0) - 2) \<and> length (ys v') = length (rlist w0)
           \<and> (\<forall>j<length (rlist w0). ys v' ! j = traj struceqs_tpl od (rlist w0) (ys w0 ! 0) j)"
  proof (rule run_loop_exhausts)
    show "length (ys w0) = length (rlist w0)" by (rule f(5))
    show "2 \<le> length (rlist w0)" using n3 by simp
    show "\<forall>j. Suc j < length (rlist w0) \<longrightarrow>
           \<not> vanishes (fst (traj struceqs_tpl od (rlist w0) (ys w0 ! 0) (Suc j))) tol"
      using h f(6) by simp
  qed
  then obtain v where v: "run_loop struceqs_tpl od tol w0 = Inr v" "rlist v = rlist w0"
    "Rsol v = Rsol w0" "i_var v = Some (length (rlist w0) - 2)"
    "length (ys v) = length (rlist w0)"
    by blast
  obtain s where s: "truncate_at v = Inr s" "Rsol s = Rsol v" "i_var s = i_var v"
    "length (rlist s) = length (rlist v) - 1" "length (musoldat s) = length (rlist v) - 1"
    "length (msoldat s) = length (rlist v) - 1"
    "rlist s = take (length (rlist v) - 1) (rlist v)"
    using truncate_exhausted [of v] v n3 by auto
  have R: "Rsol s = rlist w0 ! (length (rlist w0) - 2)" using s(2) v(3) f(7) f(4) by simp
  have "rlist s ! (length (rlist w0) - 2) = rlist w0 ! (length (rlist w0) - 2)"
    using s(7) v(2) n3 by simp
  moreover have "length (rlist w0) - 2 < length (rlist s)" using s(4) v(2) n3 by simp
  ultimately have mem: "Rsol s \<in> set (rlist s)" unfolding R by (metis nth_mem)
  have l2: "2 \<le> length (rlist s)" using s(4) v(2) n3 by arith
  obtain mus ms ps where pr: "interpolate_solution_tpl e' s
       = Inr \<lparr>musol = mus, msol = ms, psol = ps, Msol = interp1d_eval ms (Fin (Rsol s))\<rparr>"
    using interpolate_solution_tpl_returns [OF f(1), of s] s(4,5,6) l2 mem by auto
  let ?pr = "\<lparr>musol = mus, msol = ms, psol = ps, Msol = interp1d_eval ms (Fin (Rsol s))\<rparr>"
  have run: "run_code_tpl od crusted stp pts tol = Inr (s, ?pr)"
    by (simp add: run_code_tpl_def init v(1) s(1) pr)
  have "i_var s = Some (nat pts - 2)" using s(3) v(4) f(4) by simp
  moreover have "Rsol s = rlist w0 ! (nat pts - 2)" using R f(4) by simp
  moreover have "output_results (s, ?pr) = (R_km (Rsol s), M_msun (Msol ?pr))"
    by (simp add: output_results_def)
  ultimately show "\<exists>s pr. run_code_tpl od crusted stp pts tol = Inr (s, pr)
          \<and> i_var s = Some (nat pts - 2) \<and> Rsol s = rlist w0 ! (nat pts - 2)
          \<and> output_results (s, pr) = (R_km (rlist w0 ! (nat pts - 2)), M_msun (Msol pr))"
    using run by (intro exI [of _ s] exI [of _ ?pr]) simp
qed

theorem grid_exhaustion_is_soft_witness:
  "(\<exists>s pr. run_code euler_odeint toy_table 2 (1 / 1000) 3 (1 / 10 ^ 6) = Inr (s, pr)
       \<and> i_var s = Some 1 \<and> Rsol s = 10
       \<and> output_results (s, pr) = (R_km 10, M_msun (Msol pr)))
   \<and> (\<exists>s pr. run_code_tpl euler_odeint toy_table (999 / 100) 3 (1 / 10 ^ 6) = Inr (s, pr)
       \<and> i_var s = Some 1 \<and> Rsol s = 1999 / 200
       \<and> output_results (s, pr) = (R_km (1999 / 200), M_msun (Msol pr)))"
proof -
  let ?V0 = "\<lparr>rlist = [1 / 1000, 10001 / 2000, 10],
           ys = [(Fin 2, Fin (pi / 375000000)), (Fin 0, Fin 0), (Fin 0, Fin 0)],
           Rsol = 10, i_var = None\<rparr>"
  let ?W0 = "\<lparr>rlist = [999 / 100, 1999 / 200, 10],
           ys = [y0_tpl, (Fin 0, Fin 0), (Fin 0, Fin 0)],
           Rsol = 1999 / 200, i_var = None\<rparr>"
  have h1: "initialize toy_table 2 (1 / 1000) 3 = Inr (toy_eos, Fin 2, ?V0) \<and> (3::int) \<le> 3
      \<and> (\<forall>j. Suc j < length (rlist ?V0) \<longrightarrow>
             \<not> vanishes (fst (traj struceqs euler_odeint (rlist ?V0) (y0_of (Fin 2) (1 / 1000))
                               (Suc j))) (1 / 10 ^ 6))"
    using initialize_toy_3 toy_never_fires by (simp add: y0_toy)
  have h2: "initialize_tpl toy_table (999 / 100) 3 = Inr (toy_eos, ?W0) \<and> (3::int) \<le> 3
      \<and> (\<forall>j. Suc j < length (rlist ?W0) \<longrightarrow>
             \<not> vanishes (fst (traj struceqs_tpl euler_odeint (rlist ?W0) y0_tpl (Suc j)))
                 (1 / 10 ^ 6))"
    using initialize_tpl_toy tpl_never_fires by simp
  have a: "\<exists>s pr. run_code euler_odeint toy_table 2 (1 / 1000) 3 (1 / 10 ^ 6) = Inr (s, pr)
       \<and> i_var s = Some (nat 3 - 2) \<and> Rsol s = last (rlist ?V0) \<and> Rsol s = 10
       \<and> output_results (s, pr) = (R_km 10, M_msun (Msol pr))"
    using grid_exhaustion_is_soft [of toy_table 2 "1 / 1000" 3 toy_eos "Fin 2" ?V0 euler_odeint
        "1 / 10 ^ 6" toy_eos ?W0] h1 by blast
  have b: "\<exists>s pr. run_code_tpl euler_odeint toy_table (999 / 100) 3 (1 / 10 ^ 6) = Inr (s, pr)
       \<and> i_var s = Some (nat 3 - 2) \<and> Rsol s = rlist ?W0 ! (nat 3 - 2)
       \<and> output_results (s, pr) = (R_km (rlist ?W0 ! (nat 3 - 2)), M_msun (Msol pr))"
    using grid_exhaustion_is_soft [of toy_table 2 "999 / 100" 3 toy_eos "Fin 2" ?V0 euler_odeint
        "1 / 10 ^ 6" toy_eos ?W0] h2 by blast
  have k: "nat 3 - 2 = Suc 0" by simp
  show ?thesis using a b unfolding k by simp
qed

text \<open>
  The claim without the bound on the grid fails. With one grid point the loop never binds
  \<^verbatim>\<open>i\<close> and the truncation raises \<^verbatim>\<open>NameError\<close> (in the template notebook
  \<^verbatim>\<open>rlist[-2]\<close> raises \<^verbatim>\<open>IndexError\<close> before that); with two grid points the truncated
  solution has one entry and \<^verbatim>\<open>interp1d\<close> raises \<^verbatim>\<open>ValueError\<close>.
\<close>

theorem small_grids_raise:
  "run_code euler_odeint toy_table 2 (1 / 1000) 1 (1 / 10 ^ 6) = Inl NameError
   \<and> run_code euler_odeint toy_table 2 (1 / 1000) 2 (1 / 10 ^ 6) = Inl ValueError
   \<and> run_code_tpl euler_odeint toy_table (1 / 1000) 1 (1 / 10 ^ 6) = Inl IndexError"
proof (intro conjI)
  have i1: "initialize toy_table 2 (1 / 1000) 1 =
     Inr (toy_eos, Fin 2, \<lparr>rlist = [1 / 1000], ys = [(Fin 2, Fin (pi / 375000000))],
            Rsol = 1 / 1000, i_var = None\<rparr>)"
    by (simp add: initialize_def intpeos_toy Mu_toy_2 linspace_1m y0_of_def power_divide)
  show "run_code euler_odeint toy_table 2 (1 / 1000) 1 (1 / 10 ^ 6) = Inl NameError"
    by (simp add: run_code_def i1 run_loop_def truncate_at_def)
  have i2: "initialize toy_table 2 (1 / 1000) 2 =
     Inr (toy_eos, Fin 2,
          \<lparr>rlist = [1 / 1000, 10], ys = [(Fin 2, Fin (pi / 375000000)), (Fin 0, Fin 0)],
           Rsol = 10, i_var = None\<rparr>)"
    by (simp add: initialize_def intpeos_toy Mu_toy_2 linspace_2 y0_of_def power_divide)
  have r2: "run_loop struceqs euler_odeint (1 / 10 ^ 6)
        \<lparr>rlist = [1 / 1000, 10], ys = [(Fin 2, Fin (pi / 375000000)), (Fin 0, Fin 0)],
         Rsol = 10, i_var = None\<rparr>
      = Inr \<lparr>rlist = [1 / 1000, 10],
             ys = [(Fin 2, Fin (pi / 375000000)),
                   (Fin (2 - 3333 * pi / 62500), Fin (14999 * pi / 187500000))],
             Rsol = 10, i_var = Some 0\<rparr>"
    using pi_less_4 by (simp add: run_loop_def struceqs_def power_divide Let_def vanishes_def)
  show "run_code euler_odeint toy_table 2 (1 / 1000) 2 (1 / 10 ^ 6) = Inl ValueError"
    unfolding run_code_def i2 and_then_Inr prod.case r2
    by (simp add: truncate_at_def interpolate_solution_def interp1d_new_def)
  show "run_code_tpl euler_odeint toy_table (1 / 1000) 1 (1 / 10 ^ 6) = Inl IndexError"
    by (simp add: run_code_tpl_def initialize_tpl_def intpeos_toy linspace_1m)
qed

text \<open>
  Claim C10, as the code has it. For StellarStruc-NG.ipynb on an increasing grid
  (\<open>stp < 10\<close>) of \<open>n \<ge> 3\<close> points, when the test never holds: the loop ends with
  \<open>i = n - 2\<close>; the state at index \<open>n - 1\<close> is computed, does not fail the test and is
  dropped by the truncation, which keeps the indices \<open>0..n - 2\<close>; \<^verbatim>\<open>Rsol\<close> is the last
  radius of the full grid and lies above the abscissae of the three interpolants; so
  \<^verbatim>\<open>Msol = msol(Rsol)\<close> is the fill value \<^verbatim>\<open>msoldat[-1]\<close>, the mass at grid index
  \<open>n - 2\<close>, and \<^verbatim>\<open>musol(Rsol)\<close> and \<^verbatim>\<open>psol(Rsol)\<close> raise \<^verbatim>\<open>ValueError\<close>.
\<close>

theorem exhaustion_discards_last_state:
  assumes init: "initialize crusted rhoc stp pts = Inr (e, muc, v0)"
    and p3: "3 \<le> pts" and lt: "stp < 10"
    and never: "\<forall>j. Suc j < length (rlist v0) \<longrightarrow>
             \<not> vanishes (fst (traj struceqs od (rlist v0) (y0_of muc stp) (Suc j))) tol"
  shows "\<exists>v s pr. run_loop struceqs od tol v0 = Inr v \<and> i_var v = Some (nat pts - 2)
      \<and> ys v ! (nat pts - 1) = traj struceqs od (rlist v0) (y0_of muc stp) (nat pts - 1)
      \<and> \<not> vanishes (fst (ys v ! (nat pts - 1))) tol
      \<and> truncate_at v = Inr s
      \<and> rlist s = take (nat pts - 1) (rlist v0)
      \<and> musoldat s = map fst (take (nat pts - 1) (ys v))
      \<and> msoldat s = map snd (take (nat pts - 1) (ys v))
      \<and> run_code od crusted rhoc stp pts tol = Inr (s, pr)
      \<and> Rsol s = rlist v0 ! (nat pts - 1) \<and> Rsol s = 10
      \<and> ix (musol pr) = rlist s \<and> ix (msol pr) = rlist s \<and> ix (psol pr) = rlist s
      \<and> last (rlist s) < Rsol s
      \<and> Msol pr = fill_value (msol pr) \<and> Msol pr = last (msoldat s)
      \<and> Msol pr = snd (traj struceqs od (rlist v0) (y0_of muc stp) (nat pts - 2))
      \<and> interp1d_call (musol pr) (Fin (Rsol s)) = Inl ValueError
      \<and> interp1d_call (psol pr) (Fin (Rsol s)) = Inl ValueError"
proof -
  note f = initialize_facts [OF init]
  let ?n = "length (rlist v0)"
  let ?T = "traj struceqs od (rlist v0) (y0_of muc stp)"
  have n: "?n = nat pts" by (rule f(5))
  have n3: "3 \<le> ?n" using p3 n by linarith
  have "\<exists>v'. run_loop struceqs od tol v0 = Inr v' \<and> rlist v' = rlist v0 \<and> Rsol v' = Rsol v0
           \<and> i_var v' = Some (?n - 2) \<and> length (ys v') = ?n
           \<and> (\<forall>j<?n. ys v' ! j = traj struceqs od (rlist v0) (ys v0 ! 0) j)"
  proof (rule run_loop_exhausts)
    show "length (ys v0) = ?n" by (rule f(6))
    show "2 \<le> ?n" using n3 by simp
    show "\<forall>j. Suc j < ?n \<longrightarrow>
           \<not> vanishes (fst (traj struceqs od (rlist v0) (ys v0 ! 0) (Suc j))) tol"
      using never f(7) by simp
  qed
  then obtain v where v: "run_loop struceqs od tol v0 = Inr v" "rlist v = rlist v0"
    "Rsol v = Rsol v0" "i_var v = Some (?n - 2)" "length (ys v) = ?n"
    and vt: "\<forall>j<?n. ys v ! j = ?T j"
    unfolding f(7) by blast
  obtain s where s: "truncate_at v = Inr s" "Rsol s = Rsol v" "i_var s = i_var v"
    "length (rlist s) = ?n - 1" "length (musoldat s) = ?n - 1" "length (msoldat s) = ?n - 1"
    "rlist s = take (?n - 1) (rlist v0)"
    "musoldat s = map fst (take (?n - 1) (ys v))"
    "msoldat s = map snd (take (?n - 1) (ys v))"
    using truncate_exhausted [of v] v n3 by auto
  have l2: "2 \<le> length (rlist s)" using s(4) n3 by arith
  have srt: "sorted (rlist s)"
    unfolding s(7) using linspace_sorted [OF f(4) lt] by (rule sorted_wrt_take)
  let ?mus = "\<lparr>ix = rlist s, iy = musoldat s, bounds_error = True, fill_value = NaN\<rparr>"
  let ?ms = "\<lparr>ix = rlist s, iy = msoldat s, bounds_error = False,
             fill_value = last (msoldat s)\<rparr>"
  let ?ps = "\<lparr>ix = rlist s, iy = map (interp1d_eval (pmuintp e)) (musoldat s),
             bounds_error = True, fill_value = NaN\<rparr>"
  have mus: "interp1d_new (rlist s) (musoldat s) True NaN = Inr ?mus"
    using srt s(4,5) l2 by (intro interp1d_new_sorted) simp_all
  have ms: "interp1d_new (rlist s) (msoldat s) False (last (msoldat s)) = Inr ?ms"
    using srt s(4,6) l2 by (intro interp1d_new_sorted) simp_all
  have ps: "interp1d_new (rlist s) (map (interp1d_eval (pmuintp e)) (musoldat s)) True NaN
              = Inr ?ps"
    using srt s(4,5) l2 by (intro interp1d_new_sorted) simp_all
  have ne0: "rlist v0 \<noteq> []" using n3 by auto
  have R: "Rsol s = rlist v0 ! (?n - 1)"
    using s(2) v(3) f(9) last_conv_nth [OF ne0] by simp
  have R10: "Rsol s = 10" using s(2) v(3) f(9) linspace_last [OF f(4)] p3 by simp
  have lst: "last (rlist s) = rlist v0 ! (?n - 2)"
  proof -
    have ne: "rlist s \<noteq> []" using l2 by auto
    have "last (rlist s) = rlist s ! (?n - 2)"
      using ne s(4) by (simp add: last_conv_nth) (metis One_nat_def Suc_1 diff_Suc_eq_diff_pred)
    also have "\<dots> = rlist v0 ! (?n - 2)" unfolding s(7) using n3 by simp
    finally show ?thesis .
  qed
  have out: "last (rlist s) < Rsol s"
    unfolding lst R using linspace_increasing [OF f(4) lt, of "?n - 2" "?n - 1"] n3 by simp
  have oob: "out_of_bounds ?ms (Fin (Rsol s))" "out_of_bounds ?mus (Fin (Rsol s))"
    "out_of_bounds ?ps (Fin (Rsol s))"
    using out by simp_all
  let ?pr = "\<lparr>musol = ?mus, msol = ?ms, psol = ?ps, Msol = last (msoldat s)\<rparr>"
  have call: "interp1d_call ?ms (Fin (Rsol s)) = Inr (last (msoldat s))"
    using out by (simp add: interp1d_call_def)
  have ip: "interpolate_solution e s = Inr ?pr"
    by (simp add: interpolate_solution_def mus ms ps call p_array_returns [OF f(1)])
  have run: "run_code od crusted rhoc stp pts tol = Inr (s, ?pr)"
    by (simp add: run_code_def init v(1) s(1) ip)
  have lastm: "last (msoldat s) = snd (?T (?n - 2))"
  proof -
    have ne: "msoldat s \<noteq> []" using s(6) n3 by auto
    have "last (msoldat s) = msoldat s ! (?n - 2)"
      using ne s(6) by (simp add: last_conv_nth) (metis One_nat_def Suc_1 diff_Suc_eq_diff_pred)
    also have "\<dots> = snd (ys v ! (?n - 2))" unfolding s(9) using n3 v(5) by simp
    also have "\<dots> = snd (?T (?n - 2))" using vt n3 by simp
    finally show ?thesis .
  qed
  have lastst: "ys v ! (?n - 1) = ?T (?n - 1)" using vt n3 by simp
  have notfail: "\<not> vanishes (fst (ys v ! (?n - 1))) tol"
  proof -
    have "Suc (?n - 2) < ?n" using n3 by arith
    then have "\<not> vanishes (fst (?T (Suc (?n - 2)))) tol" using never by blast
    moreover have "Suc (?n - 2) = ?n - 1" using n3 by arith
    ultimately show ?thesis using lastst by simp
  qed
  have e1: "interp1d_call ?mus (Fin (Rsol s)) = Inl ValueError"
    using out by (simp add: interp1d_call_def)
  have e2: "interp1d_call ?ps (Fin (Rsol s)) = Inl ValueError"
    using out by (simp add: interp1d_call_def)
  show ?thesis
    apply (rule exI [of _ v], rule exI [of _ s], rule exI [of _ ?pr])
    using v(1,4) lastst notfail s(1,7,8,9) run R R10 out lastm e1 e2 unfolding n
    by simp
qed

theorem exhaustion_discards_last_state_witness:
  "\<exists>v s pr. run_loop struceqs euler_odeint (1 / 10 ^ 6)
                \<lparr>rlist = [1 / 1000, 10001 / 2000, 10],
                 ys = [(Fin 2, Fin (pi / 375000000)), (Fin 0, Fin 0), (Fin 0, Fin 0)],
                 Rsol = 10, i_var = None\<rparr> = Inr v
      \<and> i_var v = Some 1 \<and> \<not> vanishes (fst (ys v ! 2)) (1 / 10 ^ 6)
      \<and> truncate_at v = Inr s \<and> rlist s = [1 / 1000, 10001 / 2000]
      \<and> run_code euler_odeint toy_table 2 (1 / 1000) 3 (1 / 10 ^ 6) = Inr (s, pr)
      \<and> Rsol s = 10 \<and> last (rlist s) < Rsol s
      \<and> Msol pr = last (msoldat s) \<and> Msol pr = Fin (29999 * pi / 750000000)
      \<and> interp1d_call (musol pr) (Fin (Rsol s)) = Inl ValueError
      \<and> interp1d_call (psol pr) (Fin (Rsol s)) = Inl ValueError"
proof -
  let ?V0 = "\<lparr>rlist = [1 / 1000, 10001 / 2000, 10],
           ys = [(Fin 2, Fin (pi / 375000000)), (Fin 0, Fin 0), (Fin 0, Fin 0)],
           Rsol = 10, i_var = None\<rparr>"
  have never: "\<forall>j. Suc j < length (rlist ?V0) \<longrightarrow>
             \<not> vanishes (fst (traj struceqs euler_odeint (rlist ?V0) (y0_of (Fin 2) (1 / 1000))
                               (Suc j))) (1 / 10 ^ 6)"
    using toy_never_fires by (simp add: y0_toy)
  have t1: "snd (traj struceqs euler_odeint (rlist ?V0) (y0_of (Fin 2) (1 / 1000)) (nat 3 - 2))
              = Fin (29999 * pi / 750000000)"
    by (simp add: y0_toy struceqs_def power_divide)
  have k: "nat 3 - 2 = Suc 0" "nat 3 - 1 = 2" by simp_all
  show ?thesis
    using exhaustion_discards_last_state [OF initialize_toy_3 _ _ never] t1
    unfolding k by (auto simp: numeral_2_eq_2)
qed

text \<open>
  Without the bound on the grid the claim fails. On a grid of two points the test never
  holds, the loop ends with \<open>i = 0\<close> and the truncation keeps one point, but
  \<^verbatim>\<open>interp1d\<close> refuses a table of one entry, so that no \<^verbatim>\<open>Msol\<close> is computed. On a
  grid of one point the loop has no step and leaves \<^verbatim>\<open>i\<close> unbound, and the
  truncation raises \<^verbatim>\<open>NameError\<close>.
\<close>

theorem small_grid_reports_no_mass:
  "initialize toy_table 1 (1 / 1000) 2 =
     Inr (toy_eos, Fin 1,
          \<lparr>rlist = [1 / 1000, 10], ys = [(Fin 1, Fin (pi / 750000000)), (Fin 0, Fin 0)],
           Rsol = 10, i_var = None\<rparr>)
   \<and> run_loop struceqs euler_odeint (1 / 10 ^ 6)
        \<lparr>rlist = [1 / 1000, 10], ys = [(Fin 1, Fin (pi / 750000000)), (Fin 0, Fin 0)],
         Rsol = 10, i_var = None\<rparr>
      = Inr \<lparr>rlist = [1 / 1000, 10],
             ys = [(Fin 1, Fin (pi / 750000000)),
                   (Fin (1 - 3333 * pi / 250000), Fin (14999 * pi / 375000000))],
             Rsol = 10, i_var = Some 0\<rparr>
   \<and> truncate_at
        \<lparr>rlist = [1 / 1000, 10],
         ys = [(Fin 1, Fin (pi / 750000000)),
               (Fin (1 - 3333 * pi / 250000), Fin (14999 * pi / 375000000))],
         Rsol = 10, i_var = Some 0\<rparr>
      = Inr \<lparr>rlist = [1 / 1000],
             ys = [(Fin 1, Fin (pi / 750000000)),
                   (Fin (1 - 3333 * pi / 250000), Fin (14999 * pi / 375000000))],
             Rsol = 10, i_var = Some 0,
             musoldat = [Fin 1], msoldat = [Fin (pi / 750000000)]\<rparr>
   \<and> interpolate_solution toy_eos
        \<lparr>rlist = [1 / 1000],
         ys = [(Fin 1, Fin (pi / 750000000)),
               (Fin (1 - 3333 * pi / 250000), Fin (14999 * pi / 375000000))],
         Rsol = 10, i_var = Some 0,
         musoldat = [Fin 1], msoldat = [Fin (pi / 750000000)]\<rparr> = Inl ValueError
   \<and> run_code euler_odeint toy_table 1 (1 / 1000) 2 (1 / 10 ^ 6) = Inl ValueError
   \<and> initialize toy_table 1 (1 / 1000) 1 =
     Inr (toy_eos, Fin 1,
          \<lparr>rlist = [1 / 1000], ys = [(Fin 1, Fin (pi / 750000000))],
           Rsol = 1 / 1000, i_var = None\<rparr>)
   \<and> run_loop struceqs euler_odeint (1 / 10 ^ 6)
        \<lparr>rlist = [1 / 1000], ys = [(Fin 1, Fin (pi / 750000000))],
         Rsol = 1 / 1000, i_var = None\<rparr>
      = Inr \<lparr>rlist = [1 / 1000], ys = [(Fin 1, Fin (pi / 750000000))],
             Rsol = 1 / 1000, i_var = None\<rparr>
   \<and> truncate_at
        \<lparr>rlist = [1 / 1000], ys = [(Fin 1, Fin (pi / 750000000))],
         Rsol = 1 / 1000, i_var = None\<rparr> = Inl NameError"
proof -
  have i: "initialize toy_table 1 (1 / 1000) 2 =
     Inr (toy_eos, Fin 1,
          \<lparr>rlist = [1 / 1000, 10], ys = [(Fin 1, Fin (pi / 750000000)), (Fin 0, Fin 0)],
           Rsol = 10, i_var = None\<rparr>)"
    by (simp add: initialize_def intpeos_toy Mu_toy_1 linspace_2 y0_of_def power_divide)
  have r: "run_loop struceqs euler_odeint (1 / 10 ^ 6)
        \<lparr>rlist = [1 / 1000, 10], ys = [(Fin 1, Fin (pi / 750000000)), (Fin 0, Fin 0)],
         Rsol = 10, i_var = None\<rparr>
      = Inr \<lparr>rlist = [1 / 1000, 10],
             ys = [(Fin 1, Fin (pi / 750000000)),
                   (Fin (1 - 3333 * pi / 250000), Fin (14999 * pi / 375000000))],
             Rsol = 10, i_var = Some 0\<rparr>"
    using pi_less_4 by (simp add: run_loop_def struceqs_def power_divide Let_def vanishes_def)
  have t: "truncate_at
        \<lparr>rlist = [1 / 1000, 10],
         ys = [(Fin 1, Fin (pi / 750000000)),
               (Fin (1 - 3333 * pi / 250000), Fin (14999 * pi / 375000000))],
         Rsol = 10, i_var = Some 0\<rparr>
      = Inr \<lparr>rlist = [1 / 1000],
             ys = [(Fin 1, Fin (pi / 750000000)),
                   (Fin (1 - 3333 * pi / 250000), Fin (14999 * pi / 375000000))],
             Rsol = 10, i_var = Some 0,
             musoldat = [Fin 1], msoldat = [Fin (pi / 750000000)]\<rparr>"
    by (simp add: truncate_at_def)
  have p: "interpolate_solution toy_eos
        \<lparr>rlist = [1 / 1000],
         ys = [(Fin 1, Fin (pi / 750000000)),
               (Fin (1 - 3333 * pi / 250000), Fin (14999 * pi / 375000000))],
         Rsol = 10, i_var = Some 0,
         musoldat = [Fin 1], msoldat = [Fin (pi / 750000000)]\<rparr> = Inl ValueError"
    by (simp add: interpolate_solution_def interp1d_new_def)
  have c: "run_code euler_odeint toy_table 1 (1 / 1000) 2 (1 / 10 ^ 6) = Inl ValueError"
    unfolding run_code_def i and_then_Inr prod.case r t p by simp
  have i1: "initialize toy_table 1 (1 / 1000) 1 =
     Inr (toy_eos, Fin 1,
          \<lparr>rlist = [1 / 1000], ys = [(Fin 1, Fin (pi / 750000000))],
           Rsol = 1 / 1000, i_var = None\<rparr>)"
    by (simp add: initialize_def intpeos_toy Mu_toy_1 linspace_1m y0_of_def power_divide)
  have r1: "run_loop struceqs euler_odeint (1 / 10 ^ 6)
        \<lparr>rlist = [1 / 1000], ys = [(Fin 1, Fin (pi / 750000000))],
         Rsol = 1 / 1000, i_var = None\<rparr>
      = Inr \<lparr>rlist = [1 / 1000], ys = [(Fin 1, Fin (pi / 750000000))],
             Rsol = 1 / 1000, i_var = None\<rparr>"
    by (simp add: run_loop_def)
  have t1: "truncate_at
        \<lparr>rlist = [1 / 1000], ys = [(Fin 1, Fin (pi / 750000000))],
         Rsol = 1 / 1000, i_var = None\<rparr> = Inl NameError"
    by (simp add: truncate_at_def)
  show ?thesis using i r t p c i1 r1 t1 by (intro conjI)
qed

section \<open>The right-hand side of the ODE system\<close>

text \<open>
  Claim C5. For every finite state vector \<open>(mu, m)\<close> and every radius \<open>r > 0\<close>, the
  right-hand side \<^verbatim>\<open>struceqs\<close> of StellarStruc-NG.ipynb, which the loop hands to the
  solver, is \<open>d mu/dr = - mu m / r\<^sup>2\<close> and \<open>d m/dr = 4 pi r\<^sup>2 mu\<close>.
\<close>

theorem struceqs_newtonian:
  "0 < r \<Longrightarrow> struceqs (Fin mu, Fin m) r = (Fin (- mu * m / r\<^sup>2), Fin (4 * pi * r\<^sup>2 * mu))"
  by (simp add: struceqs_def)

theorem struceqs_newtonian_witness:
  "0 < (1::real) \<and> struceqs (Fin 2, Fin 3) 1 = (Fin (- 6), Fin (8 * pi))"
  using struceqs_newtonian [of 1 2 3] by simp

text \<open>
  The template notebook has other right-hand sides, \<open>- mu m / r\<close> and \<open>r mu\<close>.
\<close>

lemma struceqs_tpl_value:
  "r \<noteq> 0 \<Longrightarrow> struceqs_tpl (Fin mu, Fin m) r = (Fin (- mu * m / r), Fin (r * mu))"
  by (simp add: struceqs_tpl_def)

section \<open>Initialisation\<close>

text \<open>
  Claim C6. In StellarStruc-NG.ipynb, for every central rest-mass density, whenever the
  EoS interpolants exist and the grid has a first point: the central energy density is
  \<^verbatim>\<open>muc = Mu(rhoc)\<close>, the grid starts at \<^verbatim>\<open>stp\<close>, the state stored at index 0 is
  \<open>(muc, 4 pi stp\<^sup>3 muc / 3)\<close>, and the loop leaves that entry as it is.
\<close>

theorem central_boundary_values:
  assumes "intpeos (geteos crusted) = Inr e" and "1 \<le> pts"
  shows "\<exists>muc v0. Mu e (Fin rhoc) = Inr muc
      \<and> initialize crusted rhoc stp pts = Inr (e, muc, v0)
      \<and> rlist v0 ! 0 = stp \<and> ys v0 ! 0 = y0_of muc stp
      \<and> (\<forall>od tol. \<exists>v. run_loop struceqs od tol v0 = Inr v \<and> ys v ! 0 = y0_of muc stp)
      \<and> y0_of (Fin x) stp = (Fin x, Fin (4 * pi / 3 * stp ^ 3 * x))"
proof -
  let ?muc = "interp1d_eval (murhointp e) (Fin rhoc)"
  have mu: "Mu e (Fin rhoc) = Inr ?muc" using assms(1) by (rule Mu_returns)
  obtain rl where rl: "linspace stp 10 pts = Inr rl"
    using linspace_Inr [of pts stp 10] assms(2) by auto
  let ?v0 = "\<lparr>rlist = rl, ys = (replicate (length rl) (Fin 0, Fin 0))[0 := y0_of ?muc stp],
              Rsol = last rl, i_var = None\<rparr>"
  have init: "initialize crusted rhoc stp pts = Inr (e, ?muc, ?v0)"
    unfolding initialize_eq_Inr using assms mu rl by simp
  note f = initialize_facts [OF init]
  have loop: "\<exists>v. run_loop struceqs od tol ?v0 = Inr v \<and> ys v ! 0 = y0_of ?muc stp" for od tol
    using for_loop_total [of ?v0 struceqs od tol 0] f(6,7) unfolding run_loop_def by auto
  have y0: "y0_of (Fin x) stp = (Fin x, Fin (4 * pi / 3 * stp ^ 3 * x))"
    by (simp add: y0_of_def)
  show ?thesis
    apply (rule exI [of _ ?muc], rule exI [of _ ?v0])
    using mu init f(7,8) loop y0 by blast
qed

theorem central_boundary_values_witness:
  "\<exists>muc v0. Mu toy_eos (Fin 2) = Inr muc
      \<and> initialize toy_table 2 1 3 = Inr (toy_eos, muc, v0)
      \<and> rlist v0 ! 0 = 1 \<and> ys v0 ! 0 = y0_of muc 1
      \<and> (\<forall>od tol. \<exists>v. run_loop struceqs od tol v0 = Inr v \<and> ys v ! 0 = y0_of muc 1)
      \<and> y0_of (Fin 2) 1 = (Fin 2, Fin (4 * pi / 3 * 1 ^ 3 * 2))"
  using central_boundary_values [OF intpeos_toy, of 3 2 1 2] by simp

section \<open>What is rejected before the loop\<close>

text \<open>
  Claim C7, as the code has it. The only failure before the loop that depends on the
  table is the \<^verbatim>\<open>ValueError\<close> that \<^verbatim>\<open>interp1d\<close> raises inside \<^verbatim>\<open>intpeos\<close> for a
  table of fewer than two rows (or columns of unequal length). Nothing else is checked:
  with at least two rows, whatever the order of the columns and whatever the sign of the
  central density, initialisation raises nothing and, on a grid of at least two points,
  the loop runs.
\<close>

theorem only_short_tables_rejected:
  "(length rhodat < 2 \<or> length pdat \<noteq> length rhodat
      \<longrightarrow> run_code od (rhodat, mudat, pdat) rhoc stp pts tol = Inl ValueError)
   \<and> (2 \<le> length rhodat \<and> length pdat = length rhodat \<and> 2 \<le> pts
      \<longrightarrow> (\<exists>e muc v0 v. initialize (rhodat, mudat, pdat) rhoc stp pts = Inr (e, muc, v0)
             \<and> run_loop struceqs od tol v0 = Inr v \<and> i_var v \<noteq> None))"
proof (intro conjI impI)
  assume "length rhodat < 2 \<or> length pdat \<noteq> length rhodat"
  then have "interp1d_new rhodat (map Fin pdat) False (Fin 0) = Inl ValueError"
    by (auto simp: interp1d_new_def)
  then have "intpeos (geteos (rhodat, mudat, pdat)) = Inl ValueError"
    by (simp add: intpeos_def)
  then show "run_code od (rhodat, mudat, pdat) rhoc stp pts tol = Inl ValueError"
    by (simp add: run_code_def initialize_def)
next
  assume h: "2 \<le> length rhodat \<and> length pdat = length rhodat \<and> 2 \<le> pts"
  then obtain e where e: "intpeos (geteos (rhodat, mudat, pdat)) = Inr e"
    using intpeos_accepts [of rhodat pdat mudat] by auto
  let ?muc = "interp1d_eval (murhointp e) (Fin rhoc)"
  have mu: "Mu e (Fin rhoc) = Inr ?muc" using e by (rule Mu_returns)
  obtain rl where rl: "linspace stp 10 pts = Inr rl"
    using linspace_Inr [of pts stp 10] h by auto
  let ?v0 = "\<lparr>rlist = rl, ys = (replicate (length rl) (Fin 0, Fin 0))[0 := y0_of ?muc stp],
              Rsol = last rl, i_var = None\<rparr>"
  have init: "initialize (rhodat, mudat, pdat) rhoc stp pts = Inr (e, ?muc, ?v0)"
    unfolding initialize_eq_Inr using h e mu rl by simp
  note f = initialize_facts [OF init]
  have "2 \<le> nat pts" using h by linarith
  then have len: "Suc 0 < length (rlist ?v0)" using f(5) by simp
  obtain v where "run_loop struceqs od tol ?v0 = Inr v" and "i_var v \<noteq> None"
    using for_loop_total [of ?v0 struceqs od tol 0] f(6) len unfolding run_loop_def by auto
  then show "\<exists>e muc v0 v. initialize (rhodat, mudat, pdat) rhoc stp pts = Inr (e, muc, v0)
             \<and> run_loop struceqs od tol v0 = Inr v \<and> i_var v \<noteq> None"
    using init by blast
qed

theorem only_short_tables_rejected_witness:
  "run_code euler_odeint ([1], [1], [1]) 1 1 3 (1 / 10 ^ 6) = Inl ValueError
   \<and> (\<exists>e muc v0 v. initialize ([2, 0, 1], [2, 0, 1], [1, 0, 1 / 2]) (- 1) 1 3 = Inr (e, muc, v0)
         \<and> run_loop struceqs euler_odeint (1 / 10 ^ 6) v0 = Inr v \<and> i_var v \<noteq> None)"
  using only_short_tables_rejected [of "[1]" "[1]" euler_odeint "[1]" 1 1 3 "1 / 10 ^ 6"]
    only_short_tables_rejected [of "[2, 0, 1]" "[1, 0, 1 / 2]" euler_odeint "[2, 0, 1]" "- 1" 1 3
      "1 / 10 ^ 6"]
  by simp

text \<open>
  The claim as stated fails: a negative central density passes the initialisation
  (\<^verbatim>\<open>Mu\<close> answers the fill value 0), the loop integrates its first step and stops
  there; and a table whose rows are out of order is accepted, \<^verbatim>\<open>interp1d\<close> sorting it
  into the interpolants of the ordered table.
\<close>

theorem nonpositive_density_reaches_integrator:
  "initialize toy_table (- 1) 1 3 =
     Inr (toy_eos, Fin 0,
          \<lparr>rlist = [1, 11 / 2, 10], ys = [(Fin 0, Fin 0), (Fin 0, Fin 0), (Fin 0, Fin 0)],
           Rsol = 10, i_var = None\<rparr>)
   \<and> run_loop struceqs euler_odeint (1 / 10 ^ 6)
        \<lparr>rlist = [1, 11 / 2, 10], ys = [(Fin 0, Fin 0), (Fin 0, Fin 0), (Fin 0, Fin 0)],
         Rsol = 10, i_var = None\<rparr>
      = Inr \<lparr>rlist = [1, 11 / 2, 10], ys = [(Fin 0, Fin 0), (Fin 0, Fin 0), (Fin 0, Fin 0)],
             Rsol = 1, i_var = Some 0\<rparr>
   \<and> intpeos (geteos ([2, 0, 1], [2, 0, 1], [1, 0, 1 / 2])) = Inr toy_eos"
proof (intro conjI)
  show "initialize toy_table (- 1) 1 3 =
     Inr (toy_eos, Fin 0,
          \<lparr>rlist = [1, 11 / 2, 10], ys = [(Fin 0, Fin 0), (Fin 0, Fin 0), (Fin 0, Fin 0)],
           Rsol = 10, i_var = None\<rparr>)"
    by (rule initialize_toy_vacuum) simp
  show "run_loop struceqs euler_odeint (1 / 10 ^ 6)
        \<lparr>rlist = [1, 11 / 2, 10], ys = [(Fin 0, Fin 0), (Fin 0, Fin 0), (Fin 0, Fin 0)],
         Rsol = 10, i_var = None\<rparr>
      = Inr \<lparr>rlist = [1, 11 / 2, 10], ys = [(Fin 0, Fin 0), (Fin 0, Fin 0), (Fin 0, Fin 0)],
             Rsol = 1, i_var = Some 0\<rparr>"
    by (simp add: run_loop_def struceqs_def Let_def vanishes_def upt_rec)
  show "intpeos (geteos ([2, 0, 1], [2, 0, 1], [1, 0, 1 / 2])) = Inr toy_eos"
    by (simp add: toy_eos_def intpeos_def interp1d_new_def np_gradient_def Let_def upt_rec)
qed

section \<open>Sign and order of the stored solution\<close>




section \<open>Unit conversion\<close>

lemma G_rhonuc_pos: "0 < G * rhonuc"
  by (simp add: G_def rhonuc_def)

text \<open>
  Claim C9. The converter computes \<open>R = Rsol c / (10\<^sup>5 sqrt (G rhonuc))\<close> and
  \<open>M = Msol c\<^sup>3 / (G sqrt (G rhonuc) Msun)\<close>, and the inverse formulas recover the
  code-unit values, in particular a radius of 1 and a mass of 1. The statement is over
  the reals, where the round trip is exact.
\<close>

theorem unit_conversion_round_trip:
  "R_km Rs = Rs * c / (10 ^ 5 * sqrt (G * rhonuc))
   \<and> M_msun (Fin Ms) = Fin (Ms * c ^ 3 / (G * sqrt (G * rhonuc) * Msun))
   \<and> R_code (R_km Rs) = Rs \<and> M_code (M_msun (Fin Ms)) = Fin Ms
   \<and> R_code (R_km 1) = 1 \<and> M_code (M_msun (Fin 1)) = Fin 1"
proof -
  have pw: "(G * rhonuc) powr (1 / 2) = sqrt (G * rhonuc)"
    using G_rhonuc_pos by (simp add: powr_half_sqrt)
  have cpos: "0 < c" by (simp add: c_def)
  have gpos: "0 < G" by (simp add: G_def)
  have mpos: "0 < Msun" by (simp add: Msun_def)
  have rpos: "0 < rhonuc" by (simp add: rhonuc_def)
  have den: "G * sqrt (G * rhonuc) * Msun \<noteq> 0" using gpos mpos rpos by simp
  have R: "R_km x = x * c / (10 ^ 5 * sqrt (G * rhonuc))" for x
    by (simp add: R_km_def pw)
  have M: "M_msun (Fin x) = Fin (x * c ^ 3 / (G * sqrt (G * rhonuc) * Msun))" for x
    using den by (simp add: M_msun_def pw)
  have Ri: "R_code (R_km x) = x" for x
    unfolding R R_code_def using gpos rpos cpos by simp
  have Mi: "M_code (M_msun (Fin x)) = Fin x" for x
    unfolding M M_code_def using den cpos by simp
  show ?thesis by (intro conjI R M Ri Mi)
qed

end
